theory Spec2Isabelle
  imports Main "HOL-Library.Word" "HOL-Library.Sublist"
begin

section \<open>JavaScript strings\<close>

text \<open>
  A JavaScript string is a sequence of 16-bit code units. The component under
  verification (\<^verbatim>\<open>src/App.tsx\<close>) uses four primitive string operations:
  \<^verbatim>\<open>split('\n')\<close>, \<^verbatim>\<open>join('\n')\<close>, \<^verbatim>\<open>trim()\<close> and
  \<^verbatim>\<open>replace(/^(https?:\/\/)/i, '')\<close>. They are defined by ECMAScript alone and are
  modelled here in full. \<^verbatim>\<open>toLowerCase()\<close> depends on the Unicode tables and is a
  parameter of the model (see the record \<open>platform\<close>).
\<close>

type_synonym jsstring = "16 word list"

definition js :: "string \<Rightarrow> jsstring" where
  "js s = map of_char s"

abbreviation LF :: "16 word" where
  "LF \<equiv> 0x0A"

text \<open>
  ECMAScript \<^verbatim>\<open>WhiteSpace\<close> and \<^verbatim>\<open>LineTerminator\<close> code units, the ones
  \<^verbatim>\<open>String.prototype.trim\<close> strips: TAB, LF, VT, FF, CR, SP, NBSP, U+1680,
  U+2000..U+200A, U+2028, U+2029, U+202F, U+205F, U+3000 and U+FEFF.
\<close>

definition isWhiteSpace :: "16 word \<Rightarrow> bool" where
  "isWhiteSpace c \<longleftrightarrow>
     (0x09 \<le> c \<and> c \<le> 0x0D) \<or> c = 0x20 \<or> c = 0xA0 \<or> c = 0x1680 \<or>
     (0x2000 \<le> c \<and> c \<le> 0x200A) \<or> c = 0x2028 \<or> c = 0x2029 \<or> c = 0x202F \<or>
     c = 0x205F \<or> c = 0x3000 \<or> c = 0xFEFF"

definition trim :: "jsstring \<Rightarrow> jsstring" where
  "trim s = rev (dropWhile isWhiteSpace (rev (dropWhile isWhiteSpace s)))"

text \<open>\<^verbatim>\<open>s.split(sep)\<close> for a one-unit separator: the empty string gives one empty piece.\<close>

fun split_on :: "'a \<Rightarrow> 'a list \<Rightarrow> 'a list list" where
  "split_on sep [] = [[]]"
| "split_on sep (c # cs) =
     (if c = sep then [] # split_on sep cs
      else (case split_on sep cs of [] \<Rightarrow> [[c]] | l # ls \<Rightarrow> (c # l) # ls))"

text \<open>\<^verbatim>\<open>a.join(sep)\<close> for a one-unit separator: the empty array gives the empty string.\<close>

fun join :: "'a \<Rightarrow> 'a list list \<Rightarrow> 'a list" where
  "join sep [] = []"
| "join sep [l] = l"
| "join sep (l # m # ls) = l @ sep # join sep (m # ls)"

definition asciiLower :: "16 word \<Rightarrow> 16 word" where
  "asciiLower c = (if 0x41 \<le> c \<and> c \<le> 0x5A then c + 0x20 else c)"

text \<open>
  \<^verbatim>\<open>removeProtocol\<close> (lines 28-30). Without the \<^verbatim>\<open>u\<close> flag, the \<^verbatim>\<open>i\<close> flag
  of a regular expression never lets a code unit above 127 match an ASCII letter, so the
  pattern matches exactly the ASCII spellings of \<^verbatim>\<open>http://\<close> and \<^verbatim>\<open>https://\<close> in
  any letter case, at the start of the string, and the first match is deleted.
\<close>

definition removeProtocol :: "jsstring \<Rightarrow> jsstring" where
  "removeProtocol domain =
     (if map asciiLower (take 7 domain) = js ''http://'' then drop 7 domain
      else if map asciiLower (take 8 domain) = js ''https://'' then drop 8 domain
      else domain)"

text \<open>
  \<^verbatim>\<open>Date.now().toString()\<close>: the decimal numeral of an integer number of milliseconds
  (the values of \<^verbatim>\<open>Date.now()\<close> are integers far below the magnitude where
  JavaScript switches to exponent notation).
\<close>

function decimal :: "nat \<Rightarrow> jsstring" where
  "decimal n = (if n < 10 then [0x30 + of_nat n] else decimal (n div 10) @ [0x30 + of_nat (n mod 10)])"
  by pat_completeness auto
termination
  by (relation "measure (\<lambda>n. n)") auto

declare decimal.simps [simp del]

definition numberToString :: "int \<Rightarrow> jsstring" where
  "numberToString t = (if t < 0 then 0x2D # decimal (nat (- t)) else decimal (nat t))"

section \<open>The platform: URL and JSON\<close>

text \<open>
  The component calls the browser's \<^verbatim>\<open>URL\<close> class (constructor, \<^verbatim>\<open>hostname\<close>
  getter and setter, \<^verbatim>\<open>toString\<close>) and \<^verbatim>\<open>JSON.parse\<close> / \<^verbatim>\<open>JSON.stringify\<close>.
  Their code is not part of the repository; they are parameters of the model, collected
  in the record \<open>platform\<close>, and every theorem that is not a closed evaluation holds
  for every platform.

  A URL object is the URL record of the URL standard: the hostname setter either leaves
  the record as it is (the new value is rejected) or stores a new host, and touches no
  other component. \<open>hostnameSetter P u v\<close> is the host that assigning \<open>v\<close> stores in
  \<open>u\<close>, or \<open>None\<close> when the assignment is ignored.
\<close>

record url =
  scheme :: jsstring
  username :: jsstring
  password :: jsstring
  host :: "jsstring option"
  port :: "nat option"
  path :: jsstring
  query :: "jsstring option"
  fragment :: "jsstring option"

datatype json =
    JNull
  | JBool bool
  | JNum int
  | JStr jsstring
  | JArr "json list"
  | JObj "(jsstring \<times> json) list"

record platform =
  parseURL :: "jsstring \<Rightarrow> url option"
  hostnameSetter :: "url \<Rightarrow> jsstring \<Rightarrow> jsstring option"
  serializeURL :: "url \<Rightarrow> jsstring"
  toLowerCase :: "jsstring \<Rightarrow> jsstring"
  jsonStringify :: "json \<Rightarrow> jsstring"
  jsonParse :: "jsstring \<Rightarrow> json option"

text \<open>\<^verbatim>\<open>url.hostname\<close>: the serialized host, the empty string for a null host.\<close>

definition hostname :: "url \<Rightarrow> jsstring" where
  "hostname u = (case host u of None \<Rightarrow> [] | Some h \<Rightarrow> h)"

text \<open>\<^verbatim>\<open>url.hostname = v\<close>.\<close>

definition setHostname :: "platform \<Rightarrow> jsstring \<Rightarrow> url \<Rightarrow> url" where
  "setHostname P v u = (case hostnameSetter P u v of None \<Rightarrow> u | Some h \<Rightarrow> u\<lparr>host := Some h\<rparr>)"

section \<open>Domain auto-extraction (lines 85-109)\<close>

text \<open>
  \<^verbatim>\<open>domainCounts\<close> is a plain object used as a dictionary. Its own properties are kept
  as an association list in insertion order; \<^verbatim>\<open>Object.keys(domainCounts).length\<close> is the
  length of that list. A plain object also inherits the properties of
  \<^verbatim>\<open>Object.prototype\<close>, and \<^verbatim>\<open>domainCounts[domain]\<close> reads them:
  \<^item> for an inherited method name such as \<^verbatim>\<open>constructor\<close>, \<^verbatim>\<open>(f || 0) + 1\<close> is a
    string, which the assignment stores as an own property; compared with
    \<^verbatim>\<open>maxCount\<close> it is \<^verbatim>\<open>NaN\<close>, so the comparison is false, now and at every later
    occurrence of that name (the stored string only grows);
  \<^item> for \<^verbatim>\<open>__proto__\<close> the assignment of a string is ignored by the accessor and the
    comparison is false as well: nothing changes.
  A property holding such a string is \<open>NotANumber\<close> below.
\<close>

datatype tally = Count nat | NotANumber

record extraction =
  domainCounts :: "(jsstring \<times> tally) list"
  maxCount :: nat
  commonDomain :: "jsstring option"

definition objectPrototypeMethods :: "jsstring list" where
  "objectPrototypeMethods =
     [js ''constructor'', js ''hasOwnProperty'', js ''isPrototypeOf'',
      js ''propertyIsEnumerable'', js ''toLocaleString'', js ''toString'', js ''valueOf'',
      js ''__defineGetter__'', js ''__defineSetter__'', js ''__lookupGetter__'',
      js ''__lookupSetter__'']"

text \<open>Assignment to a property of an object: an own property keeps its place.\<close>

definition setProperty :: "'k \<Rightarrow> 'v \<Rightarrow> ('k \<times> 'v) list \<Rightarrow> ('k \<times> 'v) list" where
  "setProperty k v kvs =
     (if k \<in> set (map fst kvs) then map (\<lambda>(k', v'). if k' = k then (k', v) else (k', v')) kvs
      else kvs @ [(k, v)])"

text \<open>The body of the \<^verbatim>\<open>try\<close> block for a line that parsed (lines 96-101).\<close>

definition countDomain :: "jsstring \<Rightarrow> extraction \<Rightarrow> extraction" where
  "countDomain domain st =
     (if domain = js ''__proto__'' then st
      else
        (case map_of (domainCounts st) domain of
           Some NotANumber \<Rightarrow> st
         | Some (Count n) \<Rightarrow>
             (let st' = st\<lparr>domainCounts := setProperty domain (Count (n + 1)) (domainCounts st)\<rparr>
              in if n + 1 > maxCount st' then st'\<lparr>maxCount := n + 1, commonDomain := Some domain\<rparr>
                 else st')
         | None \<Rightarrow>
             if domain \<in> set objectPrototypeMethods
             then st\<lparr>domainCounts := setProperty domain NotANumber (domainCounts st)\<rparr>
             else
               (let st' = st\<lparr>domainCounts := setProperty domain (Count 1) (domainCounts st)\<rparr>
                in if 1 > maxCount st' then st'\<lparr>maxCount := 1, commonDomain := Some domain\<rparr>
                   else st')))"

text \<open>One iteration of \<^verbatim>\<open>urls.forEach\<close>: a line that does not parse is ignored.\<close>

definition countUrl :: "platform \<Rightarrow> extraction \<Rightarrow> jsstring \<Rightarrow> extraction" where
  "countUrl P st urlStr =
     (case parseURL P (trim urlStr) of
        None \<Rightarrow> st
      | Some u \<Rightarrow> countDomain (hostname u) st)"

definition nonBlankLines :: "jsstring \<Rightarrow> jsstring list" where
  "nonBlankLines urlsText = filter (\<lambda>url. trim url \<noteq> []) (split_on LF urlsText)"

text \<open>
  \<^verbatim>\<open>maxCount > urls.length / 2\<close> compares small integers as floating-point numbers;
  it is written here without the division, as \<open>length urls < 2 * maxCount\<close>.
\<close>

definition extractCommonDomain :: "platform \<Rightarrow> jsstring \<Rightarrow> jsstring option" where
  "extractCommonDomain P urlsText =
     (let urls = nonBlankLines urlsText
      in if length urls = 0 then None
         else
           (let st = foldl (countUrl P) \<lparr>domainCounts = [], maxCount = 0, commonDomain = None\<rparr> urls
            in if length urls < 2 * maxCount st \<or> length (domainCounts st) = 1
               then commonDomain st else None))"

section \<open>A reference platform\<close>

text \<open>
  Closed evaluations need one concrete platform. \<open>ref_platform\<close> is an executable
  fragment of the browser's behaviour: on the inputs it accepts it answers as the URL
  standard and ECMAScript prescribe, and it rejects everything else, which the browser
  need not. Every closed theorem below uses only absolute \<^verbatim>\<open>http\<close> and \<^verbatim>\<open>https\<close>
  URLs of the fragment, and lines without any scheme, which the browser rejects too.

  The URL fragment: scheme \<^verbatim>\<open>http://\<close> or \<^verbatim>\<open>https://\<close> in any case; a host of ASCII
  letters, digits, dots and underscores whose last label starts with a letter or an
  underscore (so it is a domain, not an IPv4 address), lower-cased by the parser; an
  optional decimal port up to 65535, dropped when it is the scheme's default; a path, a
  query and a fragment over unreserved characters, with no dot segments.
\<close>

definition isAsciiAlpha :: "16 word \<Rightarrow> bool" where
  "isAsciiAlpha c \<longleftrightarrow> (0x41 \<le> c \<and> c \<le> 0x5A) \<or> (0x61 \<le> c \<and> c \<le> 0x7A)"

definition isAsciiDigit :: "16 word \<Rightarrow> bool" where
  "isAsciiDigit c \<longleftrightarrow> 0x30 \<le> c \<and> c \<le> 0x39"

definition isUnreserved :: "16 word \<Rightarrow> bool" where
  "isUnreserved c \<longleftrightarrow> isAsciiAlpha c \<or> isAsciiDigit c \<or> c = 0x2D \<or> c = 0x2E \<or> c = 0x5F \<or> c = 0x7E"

definition ref_host :: "jsstring \<Rightarrow> jsstring option" where
  "ref_host h =
     (if list_all (\<lambda>c. isAsciiAlpha c \<or> isAsciiDigit c \<or> c = 0x2E \<or> c = 0x5F) h \<and>
         (case last (split_on 0x2E h) of [] \<Rightarrow> False | c # _ \<Rightarrow> isAsciiAlpha c \<or> c = 0x5F)
      then Some (map asciiLower h) else None)"

definition digitsValue :: "jsstring \<Rightarrow> nat" where
  "digitsValue ds = foldl (\<lambda>n c. 10 * n + unat (c - 0x30)) 0 ds"

text \<open>The port after the host: \<open>None\<close> is a failure, \<open>Some None\<close> the null port.\<close>

definition ref_port :: "jsstring \<Rightarrow> jsstring \<Rightarrow> nat option option" where
  "ref_port sch p =
     (case p of
        [] \<Rightarrow> Some None
      | c # ds \<Rightarrow>
          if ds = [] \<or> length ds > 5 then None
          else if list_all isAsciiDigit ds \<and> digitsValue ds \<le> 65535
          then (if digitsValue ds = (if sch = js ''http'' then 80 else 443) then Some None
                else Some (Some (digitsValue ds)))
          else None)"

definition isC0OrSpace :: "16 word \<Rightarrow> bool" where
  "isC0OrSpace c \<longleftrightarrow> c \<le> 0x20"

definition isTabOrNewline :: "16 word \<Rightarrow> bool" where
  "isTabOrNewline c \<longleftrightarrow> c = 0x09 \<or> c = 0x0A \<or> c = 0x0D"

definition ref_afterScheme :: "jsstring \<Rightarrow> jsstring \<Rightarrow> url option" where
  "ref_afterScheme sch rest =
     (let authority = takeWhile (\<lambda>c. c \<noteq> 0x2F \<and> c \<noteq> 0x3F \<and> c \<noteq> 0x23) rest;
          afterAuthority = dropWhile (\<lambda>c. c \<noteq> 0x2F \<and> c \<noteq> 0x3F \<and> c \<noteq> 0x23) rest;
          pth = takeWhile (\<lambda>c. c \<noteq> 0x3F \<and> c \<noteq> 0x23) afterAuthority;
          afterPath = dropWhile (\<lambda>c. c \<noteq> 0x3F \<and> c \<noteq> 0x23) afterAuthority;
          qry = (case afterPath of [] \<Rightarrow> None
                 | c # cs \<Rightarrow> if c = 0x3F then Some (takeWhile (\<lambda>c. c \<noteq> 0x23) cs) else None);
          afterQuery = dropWhile (\<lambda>c. c \<noteq> 0x23) afterPath;
          frg = (case afterQuery of [] \<Rightarrow> None | c # cs \<Rightarrow> Some cs)
      in case ref_host (takeWhile (\<lambda>c. c \<noteq> 0x3A) authority) of
           None \<Rightarrow> None
         | Some h \<Rightarrow>
            (case ref_port sch (dropWhile (\<lambda>c. c \<noteq> 0x3A) authority) of
               None \<Rightarrow> None
             | Some prt \<Rightarrow>
                 if list_all (\<lambda>c. isUnreserved c \<or> c = 0x2F) pth \<and>
                    list_all (\<lambda>seg. seg \<noteq> js ''.'' \<and> seg \<noteq> js ''..'') (split_on 0x2F pth) \<and>
                    list_all (\<lambda>c. isUnreserved c \<or> c = 0x2F \<or> c = 0x3D \<or> c = 0x26)
                      (case qry of None \<Rightarrow> [] | Some q \<Rightarrow> q) \<and>
                    list_all (\<lambda>c. isUnreserved c \<or> c = 0x2F)
                      (case frg of None \<Rightarrow> [] | Some f \<Rightarrow> f)
                 then Some \<lparr>scheme = sch, username = [], password = [], host = Some h,
                             port = prt, path = (if pth = [] then js ''/'' else pth),
                             query = qry, fragment = frg\<rparr>
                 else None))"

definition ref_parseURL :: "jsstring \<Rightarrow> url option" where
  "ref_parseURL input =
     (let s = filter (\<lambda>c. \<not> isTabOrNewline c)
                (rev (dropWhile isC0OrSpace (rev (dropWhile isC0OrSpace input))))
      in if map asciiLower (take 7 s) = js ''http://'' then ref_afterScheme (js ''http'') (drop 7 s)
         else if map asciiLower (take 8 s) = js ''https://'' then ref_afterScheme (js ''https'') (drop 8 s)
         else None)"

text \<open>
  The hostname setter of the URL standard, for the special schemes: the value is read up
  to the first \<^verbatim>\<open>/\<close>, \<^verbatim>\<open>?\<close>, \<^verbatim>\<open>#\<close> or backslash; a colon before that point, an
  empty host or a host that does not parse leaves the URL as it is.
\<close>

definition ref_hostnameSetter :: "url \<Rightarrow> jsstring \<Rightarrow> jsstring option" where
  "ref_hostnameSetter u v =
     (let s = filter (\<lambda>c. \<not> isTabOrNewline c) v;
          buffer = takeWhile (\<lambda>c. c \<noteq> 0x2F \<and> c \<noteq> 0x3F \<and> c \<noteq> 0x23 \<and> c \<noteq> 0x5C) s
      in if scheme u = js ''http'' \<or> scheme u = js ''https''
         then (if 0x3A \<in> set buffer then None else ref_host buffer)
         else None)"

text \<open>The URL serializer of the URL standard.\<close>

definition ref_serializeURL :: "url \<Rightarrow> jsstring" where
  "ref_serializeURL u =
     scheme u @ js '':'' @
     (case host u of
        None \<Rightarrow> (if take 2 (path u) = js ''//'' then js ''/.'' else [])
      | Some h \<Rightarrow>
          js ''//'' @
          (if username u = [] \<and> password u = [] then []
           else username u @ (if password u = [] then [] else js '':'' @ password u) @ js ''@'') @
          h @
          (case port u of None \<Rightarrow> [] | Some p \<Rightarrow> js '':'' @ decimal p)) @
     path u @
     (case query u of None \<Rightarrow> [] | Some q \<Rightarrow> js ''?'' @ q) @
     (case fragment u of None \<Rightarrow> [] | Some f \<Rightarrow> js ''#'' @ f)"

text \<open>
  The JSON fragment. \<open>ref_jsonStringify\<close> is \<^verbatim>\<open>JSON.stringify\<close> on the values of
  type \<open>json\<close>: no white space, the two-character escapes, \<^verbatim>\<open>\u\<close> escapes for the
  other control characters and for lone surrogates. \<open>ref_jsonParse\<close> reads JSON texts
  with integer numbers of at most 15 digits and objects with distinct keys that do not
  start with a digit; it rejects the other texts (numbers with a fraction or an
  exponent among them, which \<^verbatim>\<open>JSON.parse\<close> accepts). The recursion runs on fuel,
  twice the length of the text, which the descent cannot exhaust.
\<close>

definition hexDigit :: "nat \<Rightarrow> 16 word" where
  "hexDigit d = (if d < 10 then 0x30 + of_nat d else 0x57 + of_nat d)"

definition unicodeEscape :: "16 word \<Rightarrow> jsstring" where
  "unicodeEscape c =
     [0x5C, 0x75, hexDigit (unat c div 4096), hexDigit (unat c div 256 mod 16),
      hexDigit (unat c div 16 mod 16), hexDigit (unat c mod 16)]"

definition isHighSurrogate :: "16 word \<Rightarrow> bool" where
  "isHighSurrogate c \<longleftrightarrow> 0xD800 \<le> c \<and> c \<le> 0xDBFF"

definition isLowSurrogate :: "16 word \<Rightarrow> bool" where
  "isLowSurrogate c \<longleftrightarrow> 0xDC00 \<le> c \<and> c \<le> 0xDFFF"

fun quoteUnits :: "jsstring \<Rightarrow> jsstring" where
  "quoteUnits [] = []"
| "quoteUnits (c # cs) =
     (if c = 0x22 then [0x5C, 0x22] @ quoteUnits cs
      else if c = 0x5C then [0x5C, 0x5C] @ quoteUnits cs
      else if c = 0x08 then [0x5C, 0x62] @ quoteUnits cs
      else if c = 0x09 then [0x5C, 0x74] @ quoteUnits cs
      else if c = 0x0A then [0x5C, 0x6E] @ quoteUnits cs
      else if c = 0x0C then [0x5C, 0x66] @ quoteUnits cs
      else if c = 0x0D then [0x5C, 0x72] @ quoteUnits cs
      else if c < 0x20 then unicodeEscape c @ quoteUnits cs
      else if isHighSurrogate c then
        (case cs of
           [] \<Rightarrow> unicodeEscape c
         | d # ds \<Rightarrow>
             if isLowSurrogate d then c # d # quoteUnits ds
             else unicodeEscape c @ quoteUnits (d # ds))
      else if isLowSurrogate c then unicodeEscape c @ quoteUnits cs
      else c # quoteUnits cs)"

definition quoteJson :: "jsstring \<Rightarrow> jsstring" where
  "quoteJson s = 0x22 # quoteUnits s @ [0x22]"

fun ref_jsonStringify :: "json \<Rightarrow> jsstring" where
  "ref_jsonStringify JNull = js ''null''"
| "ref_jsonStringify (JBool b) = (if b then js ''true'' else js ''false'')"
| "ref_jsonStringify (JNum n) = numberToString n"
| "ref_jsonStringify (JStr s) = quoteJson s"
| "ref_jsonStringify (JArr vs) = 0x5B # join 0x2C (map ref_jsonStringify vs) @ [0x5D]"
| "ref_jsonStringify (JObj kvs) =
     0x7B # join 0x2C (map (\<lambda>kv. quoteJson (fst kv) @ 0x3A # ref_jsonStringify (snd kv)) kvs) @ [0x7D]"

definition isJsonSpace :: "16 word \<Rightarrow> bool" where
  "isJsonSpace c \<longleftrightarrow> c = 0x20 \<or> c = 0x09 \<or> c = 0x0A \<or> c = 0x0D"

definition hexValue :: "16 word \<Rightarrow> nat option" where
  "hexValue c =
     (if isAsciiDigit c then Some (unat (c - 0x30))
      else if 0x61 \<le> c \<and> c \<le> 0x66 then Some (unat (c - 0x57))
      else if 0x41 \<le> c \<and> c \<le> 0x46 then Some (unat (c - 0x37))
      else None)"

definition simpleEscape :: "16 word \<Rightarrow> 16 word option" where
  "simpleEscape e =
     (if e = 0x22 \<or> e = 0x5C \<or> e = 0x2F then Some e
      else if e = 0x62 then Some 0x08
      else if e = 0x66 then Some 0x0C
      else if e = 0x6E then Some 0x0A
      else if e = 0x72 then Some 0x0D
      else if e = 0x74 then Some 0x09
      else None)"

text \<open>The text after an opening quote: the string it denotes and the text after the closing quote.\<close>

fun parseStringBody :: "jsstring \<Rightarrow> (jsstring \<times> jsstring) option" where
  "parseStringBody [] = None"
| "parseStringBody (c # cs) =
     (if c = 0x22 then Some ([], cs)
      else if c < 0x20 then None
      else if c = 0x5C then
        (case cs of
           [] \<Rightarrow> None
         | e # es \<Rightarrow>
             if e = 0x75 then
               (case es of
                  x3 # x2 # x1 # x0 # rest \<Rightarrow>
                    (case (hexValue x3, hexValue x2, hexValue x1, hexValue x0) of
                       (Some d3, Some d2, Some d1, Some d0) \<Rightarrow>
                         (case parseStringBody rest of
                            None \<Rightarrow> None
                          | Some (str, r) \<Rightarrow>
                              Some (of_nat (4096 * d3 + 256 * d2 + 16 * d1 + d0) # str, r))
                     | _ \<Rightarrow> None)
                | _ \<Rightarrow> None)
             else
               (case simpleEscape e of
                  None \<Rightarrow> None
                | Some u \<Rightarrow>
                    (case parseStringBody es of
                       None \<Rightarrow> None
                     | Some (str, r) \<Rightarrow> Some (u # str, r))))
      else
        (case parseStringBody cs of
           None \<Rightarrow> None
         | Some (str, r) \<Rightarrow> Some (c # str, r)))"

definition parseNumber :: "jsstring \<Rightarrow> (json \<times> jsstring) option" where
  "parseNumber cs =
     (let negative = (take 1 cs = js ''-'');
          unsigned = (if negative then drop 1 cs else cs);
          ds = takeWhile isAsciiDigit unsigned;
          rest = dropWhile isAsciiDigit unsigned
      in if ds = [] \<or> length ds > 15 \<or> (length ds > 1 \<and> take 1 ds = js ''0'') then None
         else if take 1 rest = js ''.'' \<or> take 1 rest = js ''e'' \<or> take 1 rest = js ''E'' then None
         else Some (JNum (if negative then - int (digitsValue ds) else int (digitsValue ds)), rest))"

definition plainKeys :: "(jsstring \<times> json) list \<Rightarrow> bool" where
  "plainKeys kvs \<longleftrightarrow> distinct (map fst kvs) \<and> list_all (\<lambda>kv. fst kv = [] \<or> \<not> isAsciiDigit (hd (fst kv))) kvs"

fun parseValue :: "nat \<Rightarrow> jsstring \<Rightarrow> (json \<times> jsstring) option"
  and parseElements :: "nat \<Rightarrow> jsstring \<Rightarrow> (json list \<times> jsstring) option"
  and parseMembers :: "nat \<Rightarrow> jsstring \<Rightarrow> ((jsstring \<times> json) list \<times> jsstring) option"
where
  "parseValue 0 cs = None"
| "parseValue (Suc k) cs =
     (case dropWhile isJsonSpace cs of
        [] \<Rightarrow> None
      | c # rest \<Rightarrow>
          if c = 0x22 then
            (case parseStringBody rest of None \<Rightarrow> None | Some (str, r) \<Rightarrow> Some (JStr str, r))
          else if c = 0x5B then
            (if take 1 (dropWhile isJsonSpace rest) = js '']''
             then Some (JArr [], drop 1 (dropWhile isJsonSpace rest))
             else (case parseElements k rest of None \<Rightarrow> None | Some (vs, r) \<Rightarrow> Some (JArr vs, r)))
          else if c = 0x7B then
            (if take 1 (dropWhile isJsonSpace rest) = js ''}''
             then Some (JObj [], drop 1 (dropWhile isJsonSpace rest))
             else
               (case parseMembers k rest of
                  None \<Rightarrow> None
                | Some (kvs, r) \<Rightarrow> if plainKeys kvs then Some (JObj kvs, r) else None))
          else if take 4 (c # rest) = js ''null'' then Some (JNull, drop 3 rest)
          else if take 4 (c # rest) = js ''true'' then Some (JBool True, drop 3 rest)
          else if take 5 (c # rest) = js ''false'' then Some (JBool False, drop 4 rest)
          else parseNumber (c # rest))"
| "parseElements 0 cs = None"
| "parseElements (Suc k) cs =
     (case parseValue k cs of
        None \<Rightarrow> None
      | Some (v, rest) \<Rightarrow>
          (case dropWhile isJsonSpace rest of
             [] \<Rightarrow> None
           | c # rest' \<Rightarrow>
               if c = 0x5D then Some ([v], rest')
               else if c = 0x2C then
                 (case parseElements k rest' of None \<Rightarrow> None | Some (vs, r) \<Rightarrow> Some (v # vs, r))
               else None))"
| "parseMembers 0 cs = None"
| "parseMembers (Suc k) cs =
     (case dropWhile isJsonSpace cs of
        [] \<Rightarrow> None
      | c # rest \<Rightarrow>
          if c = 0x22 then
            (case parseStringBody rest of
               None \<Rightarrow> None
             | Some (key, rest1) \<Rightarrow>
                 (case dropWhile isJsonSpace rest1 of
                    [] \<Rightarrow> None
                  | d # rest2 \<Rightarrow>
                      if d = 0x3A then
                        (case parseValue k rest2 of
                           None \<Rightarrow> None
                         | Some (v, rest3) \<Rightarrow>
                             (case dropWhile isJsonSpace rest3 of
                                [] \<Rightarrow> None
                              | e # rest4 \<Rightarrow>
                                  if e = 0x7D then Some ([(key, v)], rest4)
                                  else if e = 0x2C then
                                    (case parseMembers k rest4 of
                                       None \<Rightarrow> None
                                     | Some (kvs, r) \<Rightarrow> Some ((key, v) # kvs, r))
                                  else None))
                      else None))
          else None)"

definition ref_jsonParse :: "jsstring \<Rightarrow> json option" where
  "ref_jsonParse txt =
     (case parseValue (2 * length txt + 2) txt of
        None \<Rightarrow> None
      | Some (v, rest) \<Rightarrow> if dropWhile isJsonSpace rest = [] then Some v else None)"

text \<open>\<^verbatim>\<open>toLowerCase\<close> of the reference platform is exact on ASCII strings.\<close>

definition ref_platform :: platform where
  "ref_platform =
     \<lparr>parseURL = ref_parseURL, hostnameSetter = ref_hostnameSetter,
      serializeURL = ref_serializeURL, toLowerCase = map asciiLower,
      jsonStringify = ref_jsonStringify, jsonParse = ref_jsonParse\<rparr>"


section \<open>The component's state\<close>

text \<open>
  \<^verbatim>\<open>HistoryEntry\<close> and \<^verbatim>\<open>PresetEntry\<close> (lines 12-25); the fields carry a prefix
  because both interfaces and the component state share field names.
\<close>

record history_entry =
  h_id :: jsstring
  h_timestamp :: int
  h_inputUrls :: jsstring
  h_oldDomain :: jsstring
  h_newDomain :: jsstring

record preset_entry =
  p_id :: jsstring
  p_name :: jsstring
  p_oldDomain :: jsstring
  p_newDomain :: jsstring

text \<open>
  The notifications the component raises through \<^verbatim>\<open>toast\<close>, one constructor per
  message of the source, in source order (lines 142, 190, 192, 202, 209, 214, 218, 230,
  236, 242, 251, 256, 270, 278, 284).
\<close>

datatype toast =
    ErrorAllFieldsRequired
  | WarningInvalidUrls nat
  | SuccessReplaced
  | InfoInputsCleared
  | ErrorNothingToCopy
  | SuccessCopied
  | ErrorCopyFailed
  | InfoHistoryLoaded
  | SuccessHistoryEntryDeleted
  | SuccessHistoryCleared
  | ErrorPresetFieldsRequired
  | ErrorPresetNameInUse jsstring
  | SuccessPresetSaved jsstring
  | InfoPresetLoaded jsstring
  | SuccessPresetDeleted

text \<open>
  The eight \<^verbatim>\<open>useState\<close> cells of \<^verbatim>\<open>App\<close> (lines 33-40), the browser's
  \<^verbatim>\<open>localStorage\<close>, the clipboard as far as the component wrote it, and the
  notifications raised so far. Diagnostics written to the console are not modelled.
\<close>

record app =
  inputUrls :: jsstring
  oldDomain :: jsstring
  newDomain :: jsstring
  outputUrls :: jsstring
  history :: "history_entry list"
  presets :: "preset_entry list"
  presetName :: jsstring
  autoExtractEnabled :: bool
  localStorage :: "jsstring \<Rightarrow> jsstring option"
  clipboard :: "jsstring option"
  toasts :: "toast list"

text \<open>
  The state of the first render: the initial values of the \<^verbatim>\<open>useState\<close> cells
  (lines 33-40), over the storage as the browser holds it. The effects that run after
  this render, the load of the stored collections among them, are the step \<open>mount\<close>
  below; the state the user acts on is the mounted one. Over an empty storage the
  mounted state is this state (lemma \<open>mount_empty_storage\<close>).
\<close>

definition initialApp :: "(jsstring \<Rightarrow> jsstring option) \<Rightarrow> app" where
  "initialApp store =
     \<lparr>inputUrls = [], oldDomain = [], newDomain = [], outputUrls = [], history = [],
      presets = [], presetName = [], autoExtractEnabled = True, localStorage = store,
      clipboard = None, toasts = []\<rparr>"

definition showToast :: "toast \<Rightarrow> app \<Rightarrow> app" where
  "showToast t s = s\<lparr>toasts := toasts s @ [t]\<rparr>"

definition historyKey :: jsstring where
  "historyKey = js ''domainReplacerHistory''"

definition presetsKey :: jsstring where
  "presetsKey = js ''domainReplacerPresets''"

section \<open>Persistence (lines 43-82)\<close>

text \<open>What \<^verbatim>\<open>JSON.stringify\<close> is given: the objects with their fields in creation order.\<close>

definition historyEntryJson :: "history_entry \<Rightarrow> json" where
  "historyEntryJson e =
     JObj [(js ''id'', JStr (h_id e)), (js ''timestamp'', JNum (h_timestamp e)),
           (js ''inputUrls'', JStr (h_inputUrls e)), (js ''oldDomain'', JStr (h_oldDomain e)),
           (js ''newDomain'', JStr (h_newDomain e))]"


definition presetEntryJson :: "preset_entry \<Rightarrow> json" where
  "presetEntryJson p =
     JObj [(js ''id'', JStr (p_id p)), (js ''name'', JStr (p_name p)),
           (js ''oldDomain'', JStr (p_oldDomain p)), (js ''newDomain'', JStr (p_newDomain p))]"

definition presetsJson :: "preset_entry list \<Rightarrow> json" where
  "presetsJson ps = JArr (map presetEntryJson ps)"


text \<open>
  One half of the load effect (lines 44-52 for the history, 53-61 for the presets). The
  result is the argument of \<^verbatim>\<open>setHistory\<close> (or \<^verbatim>\<open>setPresets\<close>), \<open>None\<close> when the
  setter is not called and the collection keeps its initial value \<^verbatim>\<open>[]\<close>, and the
  storage afterwards. \<^verbatim>\<open>getItem\<close> answers \<^verbatim>\<open>null\<close> for a missing key; \<^verbatim>\<open>null\<close> and
  the empty string are falsy. The parsed value is passed on as it is: the source checks
  nothing about its shape, so it is a JSON value here, not a typed collection.
\<close>

definition loadStored :: "platform \<Rightarrow> jsstring \<Rightarrow> (jsstring \<Rightarrow> jsstring option) \<Rightarrow>
    json option \<times> (jsstring \<Rightarrow> jsstring option)" where
  "loadStored P key store =
     (case store key of
        None \<Rightarrow> (None, store)
      | Some stored \<Rightarrow>
          if stored = [] then (None, store)
          else
            (case jsonParse P stored of
               None \<Rightarrow> (None, store(key := None))
             | Some v \<Rightarrow> (Some v, store)))"


text \<open>The save effects (lines 65-72 and 75-82), as functions of the storage.\<close>

definition saveStored :: "platform \<Rightarrow> jsstring \<Rightarrow> json list \<Rightarrow> (jsstring \<Rightarrow> jsstring option) \<Rightarrow>
    (jsstring \<Rightarrow> jsstring option)" where
  "saveStored P key items store =
     (if length items > 0 then store(key \<mapsto> jsonStringify P (JArr items))
      else store(key := None))"

definition saveHistoryEffect :: "platform \<Rightarrow> app \<Rightarrow> app" where
  "saveHistoryEffect P s =
     s\<lparr>localStorage := saveStored P historyKey (map historyEntryJson (history s)) (localStorage s)\<rparr>"

definition savePresetsEffect :: "platform \<Rightarrow> app \<Rightarrow> app" where
  "savePresetsEffect P s =
     s\<lparr>localStorage := saveStored P presetsKey (map presetEntryJson (presets s)) (localStorage s)\<rparr>"

section \<open>The auto-extract effect (lines 111-118)\<close>

text \<open>\<^verbatim>\<open>commonDomain && oldDomain === ''\<close>: a string is truthy when it is not empty.\<close>

definition autoExtractEffect :: "platform \<Rightarrow> app \<Rightarrow> app" where
  "autoExtractEffect P s =
     (if autoExtractEnabled s then
        (case extractCommonDomain P (inputUrls s) of
           None \<Rightarrow> s
         | Some cd \<Rightarrow>
             if cd \<noteq> [] \<and> oldDomain s = [] then s\<lparr>oldDomain := removeProtocol cd\<rparr> else s)
      else s)"

section \<open>Mounting (lines 43-118)\<close>

text \<open>
  The load effect hands the parsed value to \<^verbatim>\<open>setHistory\<close> (or \<^verbatim>\<open>setPresets\<close>)
  unchecked. The state of the model is typed, so the value is read back as a collection:
  \<open>historyOfJson v\<close> is the history \<open>h\<close> with \<open>v = historyJson h\<close>, an array of
  objects with exactly the fields of \<^verbatim>\<open>HistoryEntry\<close> in the order the component
  writes them, and \<open>None\<close> for every other value; likewise for the presets.
\<close>

definition historyEntryOfJson :: "json \<Rightarrow> history_entry option" where
  "historyEntryOfJson v =
     (case v of
        JObj [(k1, JStr i), (k2, JNum t), (k3, JStr u), (k4, JStr od), (k5, JStr nd)] \<Rightarrow>
          if [k1, k2, k3, k4, k5] =
             [js ''id'', js ''timestamp'', js ''inputUrls'', js ''oldDomain'', js ''newDomain'']
          then Some \<lparr>h_id = i, h_timestamp = t, h_inputUrls = u, h_oldDomain = od, h_newDomain = nd\<rparr>
          else None
      | _ \<Rightarrow> None)"

definition historyOfJson :: "json \<Rightarrow> history_entry list option" where
  "historyOfJson v = (case v of JArr items \<Rightarrow> those (map historyEntryOfJson items) | _ \<Rightarrow> None)"

definition presetEntryOfJson :: "json \<Rightarrow> preset_entry option" where
  "presetEntryOfJson v =
     (case v of
        JObj [(k1, JStr i), (k2, JStr n), (k3, JStr od), (k4, JStr nd)] \<Rightarrow>
          if [k1, k2, k3, k4] = [js ''id'', js ''name'', js ''oldDomain'', js ''newDomain'']
          then Some \<lparr>p_id = i, p_name = n, p_oldDomain = od, p_newDomain = nd\<rparr>
          else None
      | _ \<Rightarrow> None)"

definition presetsOfJson :: "json \<Rightarrow> preset_entry list option" where
  "presetsOfJson v = (case v of JArr items \<Rightarrow> those (map presetEntryOfJson items) | _ \<Rightarrow> None)"

text \<open>
  The render after the load effect called a setter: the cell holds the loaded collection,
  and the save effect of that cell runs because the cell changed. When the loaded value
  is not a collection of the declared type the component holds a value outside its
  types, and the typed model ends there (\<open>None\<close>).
\<close>

definition setLoadedHistory :: "platform \<Rightarrow> json option \<Rightarrow> app \<Rightarrow> app option" where
  "setLoadedHistory P arg s =
     (case arg of
        None \<Rightarrow> Some s
      | Some v \<Rightarrow>
          (case historyOfJson v of
             None \<Rightarrow> None
           | Some h \<Rightarrow> Some (saveHistoryEffect P (s\<lparr>history := h\<rparr>))))"

definition setLoadedPresets :: "platform \<Rightarrow> json option \<Rightarrow> app \<Rightarrow> app option" where
  "setLoadedPresets P arg s =
     (case arg of
        None \<Rightarrow> Some s
      | Some v \<Rightarrow>
          (case presetsOfJson v of
             None \<Rightarrow> None
           | Some ps \<Rightarrow> Some (savePresetsEffect P (s\<lparr>presets := ps\<rparr>))))"

text \<open>
  Mounting the component: after the first render all four effects run in declaration
  order. The load effect (lines 43-62) reads both keys, erases an entry that does not
  parse and queues the setters; the two save effects (lines 65-82) see the initial empty
  collections and remove both keys; the auto-extract effect (lines 111-118) sees the
  empty input text. The queued setters then cause a second render, after which the save
  effect of each loaded collection writes it back.
\<close>

definition mount :: "platform \<Rightarrow> (jsstring \<Rightarrow> jsstring option) \<Rightarrow> app option" where
  "mount P store =
     (case loadStored P historyKey store of
        (historyArg, store1) \<Rightarrow>
          (case loadStored P presetsKey store1 of
             (presetsArg, store2) \<Rightarrow>
               (case setLoadedHistory P historyArg
                       (autoExtractEffect P (savePresetsEffect P (saveHistoryEffect P (initialApp store2)))) of
                  None \<Rightarrow> None
                | Some s1 \<Rightarrow> setLoadedPresets P presetsArg s1)))"

section \<open>The handlers\<close>

definition handleOldDomainChange :: "jsstring \<Rightarrow> app \<Rightarrow> app" where
  "handleOldDomainChange v s = s\<lparr>oldDomain := removeProtocol v\<rparr>"

definition handleNewDomainChange :: "jsstring \<Rightarrow> app \<Rightarrow> app" where
  "handleNewDomainChange v s = s\<lparr>newDomain := removeProtocol v\<rparr>"

subsection \<open>Replace (lines 130-194)\<close>

text \<open>
  The marker appended to a line that is not a URL: a space, an opening parenthesis, the
  three code units U+7121 U+52B9 U+306A, \<^verbatim>\<open>URL\<close> and a closing parenthesis.
\<close>

definition invalidMarker :: jsstring where
  "invalidMarker = js '' ('' @ [0x7121, 0x52B9, 0x306A] @ js ''URL)''"

text \<open>
  The callback of \<^verbatim>\<open>urls.map\<close> (lines 150-169). It reads and increments the counter
  \<^verbatim>\<open>invalidUrlCount\<close> of the enclosing handler; the counter is threaded through.
  Only the \<^verbatim>\<open>URL\<close> constructor can throw inside the \<^verbatim>\<open>try\<close> block.
\<close>

definition replaceUrl :: "platform \<Rightarrow> jsstring \<Rightarrow> jsstring \<Rightarrow> nat \<Rightarrow> jsstring \<Rightarrow> jsstring \<times> nat" where
  "replaceUrl P cleanOldDomain cleanNewDomain invalidUrlCount urlStr =
     (case parseURL P (trim urlStr) of
        Some u \<Rightarrow>
          if toLowerCase P (hostname u) = toLowerCase P cleanOldDomain
          then (serializeURL P (setHostname P cleanNewDomain u), invalidUrlCount)
          else (trim urlStr, invalidUrlCount)
      | None \<Rightarrow> (trim urlStr @ invalidMarker, invalidUrlCount + 1))"

fun mapUrls :: "platform \<Rightarrow> jsstring \<Rightarrow> jsstring \<Rightarrow> nat \<Rightarrow> jsstring list \<Rightarrow> jsstring list \<times> nat" where
  "mapUrls P cleanOldDomain cleanNewDomain invalidUrlCount [] = ([], invalidUrlCount)"
| "mapUrls P cleanOldDomain cleanNewDomain invalidUrlCount (urlStr # urls) =
     (case replaceUrl P cleanOldDomain cleanNewDomain invalidUrlCount urlStr of
        (r, c) \<Rightarrow>
          (case mapUrls P cleanOldDomain cleanNewDomain c urls of
             (rs, c') \<Rightarrow> (r # rs, c')))"

text \<open>Lines 148-169: the array \<^verbatim>\<open>replacedUrlsArray\<close> and the final \<^verbatim>\<open>invalidUrlCount\<close>.\<close>

definition replaceUrls :: "platform \<Rightarrow> jsstring \<Rightarrow> jsstring \<Rightarrow> jsstring \<Rightarrow> jsstring list \<times> nat" where
  "replaceUrls P urlsText cleanOldDomain cleanNewDomain =
     mapUrls P cleanOldDomain cleanNewDomain 0 (nonBlankLines urlsText)"

definition cleanDomain :: "jsstring \<Rightarrow> jsstring" where
  "cleanDomain d = removeProtocol (trim d)"

text \<open>The validation of line 141: an empty string is falsy.\<close>

definition missingFields :: "app \<Rightarrow> bool" where
  "missingFields s \<longleftrightarrow>
     inputUrls s = [] \<or> cleanDomain (oldDomain s) = [] \<or> cleanDomain (newDomain s) = []"

text \<open>The two arguments are the values of the two calls of \<^verbatim>\<open>Date.now()\<close>.\<close>

definition newHistoryEntry :: "int \<Rightarrow> int \<Rightarrow> app \<Rightarrow> history_entry" where
  "newHistoryEntry t1 t2 s =
     \<lparr>h_id = numberToString t1, h_timestamp = t2, h_inputUrls = inputUrls s,
      h_oldDomain = cleanDomain (oldDomain s), h_newDomain = cleanDomain (newDomain s)\<rparr>"

definition handleReplace :: "platform \<Rightarrow> int \<Rightarrow> int \<Rightarrow> app \<Rightarrow> app" where
  "handleReplace P t1 t2 s =
     (let cleanOldDomain = cleanDomain (oldDomain s);
          cleanNewDomain = cleanDomain (newDomain s);
          s1 = s\<lparr>oldDomain := cleanOldDomain, newDomain := cleanNewDomain\<rparr>
      in if missingFields s then showToast ErrorAllFieldsRequired s1
         else
           (case replaceUrls P (inputUrls s) cleanOldDomain cleanNewDomain of
              (replacedUrlsArray, invalidUrlCount) \<Rightarrow>
                (let s2 = s1\<lparr>outputUrls := join LF replacedUrlsArray,
                             history := newHistoryEntry t1 t2 s # take 19 (history s)\<rparr>;
                     s3 = (if invalidUrlCount > 0 then showToast (WarningInvalidUrls invalidUrlCount) s2
                           else s2)
                 in showToast SuccessReplaced s3)))"

subsection \<open>Clear, copy, history and presets (lines 197-285)\<close>

definition handleClearInputs :: "app \<Rightarrow> app" where
  "handleClearInputs s =
     showToast InfoInputsCleared (s\<lparr>inputUrls := [], oldDomain := [], newDomain := [], outputUrls := []\<rparr>)"

text \<open>The argument says whether the browser's clipboard accepts the write.\<close>

definition handleCopy :: "bool \<Rightarrow> app \<Rightarrow> app" where
  "handleCopy accepted s =
     (if outputUrls s = [] then showToast ErrorNothingToCopy s
      else if accepted then showToast SuccessCopied (s\<lparr>clipboard := Some (outputUrls s)\<rparr>)
      else showToast ErrorCopyFailed s)"

definition loadFromHistory :: "jsstring \<Rightarrow> app \<Rightarrow> app" where
  "loadFromHistory entryId s =
     (case find (\<lambda>h. h_id h = entryId) (history s) of
        None \<Rightarrow> s
      | Some entry \<Rightarrow>
          showToast InfoHistoryLoaded
            (s\<lparr>inputUrls := h_inputUrls entry, oldDomain := h_oldDomain entry,
               newDomain := h_newDomain entry, outputUrls := []\<rparr>))"

definition deleteHistoryEntry :: "jsstring \<Rightarrow> app \<Rightarrow> app" where
  "deleteHistoryEntry entryId s =
     showToast SuccessHistoryEntryDeleted (s\<lparr>history := filter (\<lambda>h. h_id h \<noteq> entryId) (history s)\<rparr>)"

definition clearHistory :: "app \<Rightarrow> app" where
  "clearHistory s =
     showToast SuccessHistoryCleared
       (s\<lparr>history := [], localStorage := (localStorage s)(historyKey := None)\<rparr>)"

definition presetRejected :: "app \<Rightarrow> bool" where
  "presetRejected s \<longleftrightarrow>
     presetName s = [] \<or> cleanDomain (oldDomain s) = [] \<or> cleanDomain (newDomain s) = [] \<or>
     list_ex (\<lambda>p. p_name p = presetName s) (presets s)"

definition savePreset :: "int \<Rightarrow> app \<Rightarrow> app" where
  "savePreset t s =
     (let cleanOldDomain = cleanDomain (oldDomain s);
          cleanNewDomain = cleanDomain (newDomain s)
      in if presetName s = [] \<or> cleanOldDomain = [] \<or> cleanNewDomain = []
         then showToast ErrorPresetFieldsRequired s
         else if list_ex (\<lambda>p. p_name p = presetName s) (presets s)
         then showToast (ErrorPresetNameInUse (presetName s)) s
         else
           showToast (SuccessPresetSaved (presetName s))
             (s\<lparr>presets := presets s @
                    [\<lparr>p_id = numberToString t, p_name = presetName s,
                      p_oldDomain = cleanOldDomain, p_newDomain = cleanNewDomain\<rparr>],
                presetName := [], oldDomain := cleanOldDomain, newDomain := cleanNewDomain\<rparr>))"

definition loadPreset :: "jsstring \<Rightarrow> app \<Rightarrow> app" where
  "loadPreset presetId s =
     (case find (\<lambda>p. p_id p = presetId) (presets s) of
        None \<Rightarrow> s
      | Some preset \<Rightarrow>
          showToast (InfoPresetLoaded (p_name preset))
            (s\<lparr>oldDomain := p_oldDomain preset, newDomain := p_newDomain preset\<rparr>))"

definition deletePreset :: "jsstring \<Rightarrow> app \<Rightarrow> app" where
  "deletePreset presetId s =
     showToast SuccessPresetDeleted (s\<lparr>presets := filter (\<lambda>p. p_id p \<noteq> presetId) (presets s)\<rparr>)"

section \<open>Events and effects\<close>

text \<open>
  The user-facing operations: the three text inputs and the preset name (lines 302, 316,
  335, 377), the toggle (line 321) and the buttons. \<open>Replace\<close> and \<open>SavePreset\<close>
  carry the clock readings, \<open>Copy\<close> the clipboard's answer.
\<close>

datatype event =
    InputUrlsChange jsstring
  | OldDomainChange jsstring
  | NewDomainChange jsstring
  | PresetNameChange jsstring
  | ToggleAutoExtract
  | Replace int int
  | ClearInputs
  | Copy bool
  | LoadFromHistory jsstring
  | DeleteHistoryEntry jsstring
  | ClearHistory
  | SavePreset int
  | LoadPreset jsstring
  | DeletePreset jsstring

fun handle :: "platform \<Rightarrow> event \<Rightarrow> app \<Rightarrow> app" where
  "handle P (InputUrlsChange v) s = s\<lparr>inputUrls := v\<rparr>"
| "handle P (OldDomainChange v) s = handleOldDomainChange v s"
| "handle P (NewDomainChange v) s = handleNewDomainChange v s"
| "handle P (PresetNameChange v) s = s\<lparr>presetName := v\<rparr>"
| "handle P ToggleAutoExtract s = s\<lparr>autoExtractEnabled := \<not> autoExtractEnabled s\<rparr>"
| "handle P (Replace t1 t2) s = handleReplace P t1 t2 s"
| "handle P ClearInputs s = handleClearInputs s"
| "handle P (Copy accepted) s = handleCopy accepted s"
| "handle P (LoadFromHistory entryId) s = loadFromHistory entryId s"
| "handle P (DeleteHistoryEntry entryId) s = deleteHistoryEntry entryId s"
| "handle P ClearHistory s = clearHistory s"
| "handle P (SavePreset t) s = savePreset t s"
| "handle P (LoadPreset presetId) s = loadPreset presetId s"
| "handle P (DeletePreset presetId) s = deletePreset presetId s"

text \<open>
  An effect runs after a render in which one of its dependencies changed. The array
  cells change whenever their setter is called (every call stores a fresh array); the
  string and boolean cells change when their value does.
\<close>

fun callsSetHistory :: "event \<Rightarrow> app \<Rightarrow> bool" where
  "callsSetHistory (Replace t1 t2) s = (\<not> missingFields s)"
| "callsSetHistory (DeleteHistoryEntry entryId) s = True"
| "callsSetHistory ClearHistory s = True"
| "callsSetHistory ev s = False"

fun callsSetPresets :: "event \<Rightarrow> app \<Rightarrow> bool" where
  "callsSetPresets (SavePreset t) s = (\<not> presetRejected s)"
| "callsSetPresets (DeletePreset presetId) s = True"
| "callsSetPresets ev s = False"

definition autoExtractDepsChanged :: "app \<Rightarrow> app \<Rightarrow> bool" where
  "autoExtractDepsChanged s s' \<longleftrightarrow>
     (inputUrls s', autoExtractEnabled s', oldDomain s') \<noteq> (inputUrls s, autoExtractEnabled s, oldDomain s)"

text \<open>
  The effects after the handler of \<open>ev\<close> took the state from \<open>s\<close> to \<open>s'\<close>, in
  declaration order. When the auto-extract effect writes the old-domain field it runs
  once more and then finds the field filled, or unchanged: one run is the fixed point
  (lemma \<open>autoExtractEffect_idem\<close>).
\<close>

definition runEffects :: "platform \<Rightarrow> event \<Rightarrow> app \<Rightarrow> app \<Rightarrow> app" where
  "runEffects P ev s s' =
     (let s1 = (if callsSetHistory ev s then saveHistoryEffect P s' else s');
          s2 = (if callsSetPresets ev s then savePresetsEffect P s1 else s1)
      in if autoExtractDepsChanged s s2 then autoExtractEffect P s2 else s2)"

definition dispatch :: "platform \<Rightarrow> event \<Rightarrow> app \<Rightarrow> app" where
  "dispatch P ev s = runEffects P ev s (handle P ev s)"

definition run :: "platform \<Rightarrow> event list \<Rightarrow> app \<Rightarrow> app" where
  "run P evs s = foldl (\<lambda>st ev. dispatch P ev st) s evs"

section \<open>The entries a run creates\<close>


section \<open>The lines that parse\<close>

text \<open>
  The hostnames of the lines of a text that parse as URLs, in order: the valid lines
  that the specification of the extractor counts.
\<close>

definition parsedHostnames :: "platform \<Rightarrow> jsstring \<Rightarrow> jsstring list" where
  "parsedHostnames P urlsText =
     map hostname (List.map_filter (\<lambda>url. parseURL P (trim url)) (nonBlankLines urlsText))"

section \<open>Example inputs\<close>

text \<open>The concrete states and texts at which the closed theorems below are evaluated.\<close>

definition presetsExample :: app where
  "presetsExample =
     (initialApp (\<lambda>k. None))
       \<lparr>oldDomain := js ''a.com'', newDomain := js ''https://c.com'',
        presets := [\<lparr>p_id = js ''1700000000000'', p_name = js ''prod'',
                     p_oldDomain = js ''a.com'', p_newDomain = js ''b.com''\<rparr>]\<rparr>"


definition paddedExample :: app where
  "paddedExample = (initialApp (\<lambda>k. None))\<lparr>oldDomain := js '' a.com ''\<rparr>"

definition refillExample :: app where
  "refillExample =
     (initialApp (\<lambda>k. None))\<lparr>inputUrls := js ''https://a.com/x'', oldDomain := js '' ''\<rparr>"

definition majorityText :: jsstring where
  "majorityText = join LF [js ''https://a.com/1'', js ''https://a.com/2'', js ''https://b.com/3'']"

definition replaceExample :: app where
  "replaceExample =
     (initialApp (\<lambda>k. None))
       \<lparr>inputUrls := join LF [js ''https://a.com/x'', [], js ''   '', js '' https://b.com/y '',
                              js ''not a url'', []],
        oldDomain := js ''a.com'', newDomain := js ''c.com''\<rparr>"

definition refusedExample :: app where
  "refusedExample =
     (initialApp (\<lambda>k. None))
       \<lparr>inputUrls := js ''HTTPS://A.com/x'', oldDomain := js ''a.com'', newDomain := js ''c com''\<rparr>"

definition portLine :: jsstring where
  "portLine = js ''https://a.com:8080/a.com/x?ref=a.com#a.com''"

definition sameDomainText :: jsstring where
  "sameDomainText = join LF [js ''HTTPS://A.com/x'', js '' https://b.com/y '']"

definition minorityText :: jsstring where
  "minorityText =
     join LF [js ''https://a.com/1'', js ''https://a.com/2'', js ''https://b.com/3'',
              js ''not a url'', js ''neither'']"

definition inheritedText :: jsstring where
  "inheritedText = join LF [js ''https://a.com/1'', js ''http://__proto__/'', js ''http://__proto__/'']"






section \<open>Evaluation on the reference platform\<close>

lemmas eval_strings =
  js_def trim_def isWhiteSpace_def asciiLower_def removeProtocol_def cleanDomain_def
  nonBlankLines_def

lemmas eval_url =
  ref_platform_def ref_parseURL_def ref_afterScheme_def ref_host_def ref_port_def
  ref_hostnameSetter_def ref_serializeURL_def isAsciiAlpha_def isAsciiDigit_def isUnreserved_def
  isC0OrSpace_def isTabOrNewline_def digitsValue_def hostname_def setHostname_def

lemmas eval_extract =
  extractCommonDomain_def countUrl_def countDomain_def setProperty_def objectPrototypeMethods_def

lemma extract_single: "extractCommonDomain ref_platform (js ''https://a.com/x'') = Some (js ''a.com'')"
  by (simp add: eval_extract eval_url eval_strings Let_def)

lemma extract_majority: "extractCommonDomain ref_platform majorityText = Some (js ''a.com'')"
  by (simp add: majorityText_def eval_extract eval_url eval_strings Let_def)

lemma replaceUrls_example:
  "replaceUrls ref_platform
     (join LF [js ''https://a.com/x'', [], js ''   '', js '' https://b.com/y '', js ''not a url'', []])
     (js ''a.com'') (js ''c.com'') =
   ([js ''https://c.com/x'', js ''https://b.com/y'', js ''not a url'' @ invalidMarker], 1)"
  by (simp add: replaceUrls_def replaceUrl_def eval_url eval_strings Let_def)

lemma replaceUrls_refused:
  "replaceUrls ref_platform (js ''HTTPS://A.com/x'') (js ''a.com'') (js ''c com'') =
   ([js ''https://a.com/x''], 0)"
  by (simp add: replaceUrls_def replaceUrl_def eval_url eval_strings Let_def)

lemma portLine_parse:
  "parseURL ref_platform (trim portLine) =
     Some \<lparr>scheme = js ''https'', username = [], password = [], host = Some (js ''a.com''),
           port = Some 8080, path = js ''/a.com/x'', query = Some (js ''ref=a.com''),
           fragment = Some (js ''a.com'')\<rparr>"
  by (simp add: portLine_def eval_url eval_strings Let_def)










section \<open>The reference platform reads back a written history\<close>


































section \<open>Splitting, joining and trimming\<close>

lemma split_on_not_Nil [simp]: "split_on sep xs \<noteq> []"
  by (induction xs) (auto split: list.splits)

lemma split_on_no_sep: "l \<in> set (split_on sep xs) \<Longrightarrow> sep \<notin> set l"
proof (induction xs arbitrary: l)
  case Nil
  then show ?case by simp
next
  case (Cons c cs)
  show ?case
  proof (cases "c = sep")
    case True
    with Cons show ?thesis by auto
  next
    case False
    obtain m ms where sp: "split_on sep cs = m # ms"
      by (cases "split_on sep cs") auto
    with Cons.prems False have "l = c # m \<or> l \<in> set ms" by auto
    with Cons.IH [of m] Cons.IH [of l] sp False show ?thesis by auto
  qed
qed

lemma split_on_single: "sep \<notin> set l \<Longrightarrow> split_on sep l = [l]"
  by (induction l) auto

lemma split_on_append_sep:
  "sep \<notin> set l \<Longrightarrow> split_on sep (l @ sep # rest) = l # split_on sep rest"
  by (induction l) auto

lemma split_on_join:
  "ls \<noteq> [] \<Longrightarrow> \<forall>l \<in> set ls. sep \<notin> set l \<Longrightarrow> split_on sep (join sep ls) = ls"
proof (induction sep ls rule: join.induct)
  case (1 sep)
  then show ?case by simp
next
  case (2 sep l)
  then show ?case by (simp add: split_on_single)
next
  case (3 sep l m ls)
  then show ?case by (simp add: split_on_append_sep)
qed

lemma set_trim: "set (trim s) \<subseteq> set s"
proof -
  have "set (dropWhile isWhiteSpace (rev (dropWhile isWhiteSpace s))) \<subseteq> set (rev (dropWhile isWhiteSpace s))"
    by (meson set_dropWhileD subsetI)
  moreover have "set (dropWhile isWhiteSpace s) \<subseteq> set s"
    by (meson set_dropWhileD subsetI)
  ultimately show ?thesis by (auto simp: trim_def)
qed

lemma nonBlankLines_no_LF: "l \<in> set (nonBlankLines txt) \<Longrightarrow> LF \<notin> set l"
  by (auto simp: nonBlankLines_def dest: split_on_no_sep)

lemma nonBlankLines_trim: "l \<in> set (nonBlankLines txt) \<Longrightarrow> trim l \<noteq> []"
  by (simp add: nonBlankLines_def)

lemma invalidMarker_no_LF: "LF \<notin> set invalidMarker"
  by (simp add: invalidMarker_def js_def)

lemma trimEnd_hd:
  assumes "a \<noteq> []" and "\<not> P (hd a)"
  shows "rev (dropWhile P (rev a)) \<noteq> [] \<and> hd (rev (dropWhile P (rev a))) = hd a"
proof -
  from assms obtain x ys where a: "a = x # ys" and x: "\<not> P x"
    by (cases a) auto
  show ?thesis
  proof (cases "\<forall>y \<in> set (rev ys). P y")
    case True
    then have "dropWhile P (rev ys @ [x]) = dropWhile P [x]"
      by (intro dropWhile_append2) auto
    with x a show ?thesis by simp
  next
    case False
    then obtain y where "y \<in> set (rev ys)" "\<not> P y" by blast
    then have "dropWhile P (rev ys @ [x]) = dropWhile P (rev ys) @ [x]"
      by (rule dropWhile_append1)
    with a show ?thesis by simp
  qed
qed

lemma trim_idem: "trim (trim s) = trim s"
proof (cases "dropWhile isWhiteSpace s = []")
  case True
  have "trim s = []"
    unfolding trim_def True by simp
  moreover have "trim [] = []"
    by (simp add: trim_def)
  ultimately show ?thesis by simp
next
  case False
  let ?a = "dropWhile isWhiteSpace s"
  let ?b = "rev (dropWhile isWhiteSpace (rev ?a))"
  from False have "\<not> isWhiteSpace (hd ?a)" by (rule hd_dropWhile)
  with False have b: "?b \<noteq> [] \<and> hd ?b = hd ?a" by (intro trimEnd_hd)
  with \<open>\<not> isWhiteSpace (hd ?a)\<close> have "dropWhile isWhiteSpace ?b = ?b"
    by (simp add: dropWhile_eq_self_iff)
  then show ?thesis
    by (simp add: trim_def)
qed

lemma nonBlankLines_join:
  assumes "\<forall>r \<in> set out. LF \<notin> set r \<and> trim r \<noteq> []"
  shows "nonBlankLines (join LF out) = out"
proof (cases "out = []")
  case True
  then show ?thesis by (simp add: nonBlankLines_def trim_def)
next
  case False
  with assms have "split_on LF (join LF out) = out"
    by (intro split_on_join) auto
  with assms show ?thesis
    by (simp add: nonBlankLines_def filter_id_conv)
qed

section \<open>The auto-extract effect writes at most once\<close>

lemma autoExtractEffect_cases:
  "autoExtractEffect P s = s \<or>
   (autoExtractEnabled s \<and> oldDomain s = [] \<and>
    (\<exists>cd. extractCommonDomain P (inputUrls s) = Some cd \<and> cd \<noteq> [] \<and>
          autoExtractEffect P s = s\<lparr>oldDomain := removeProtocol cd\<rparr>))"
  by (auto simp: autoExtractEffect_def split: option.splits)

lemma autoExtractEffect_filled:
  "oldDomain s \<noteq> [] \<Longrightarrow> autoExtractEffect P s = s"
  by (simp add: autoExtractEffect_def split: option.splits)

lemma autoExtractEffect_disabled:
  "\<not> autoExtractEnabled s \<Longrightarrow> autoExtractEffect P s = s"
  by (simp add: autoExtractEffect_def)

lemma autoExtractEffect_idem:
  "autoExtractEffect P (autoExtractEffect P s) = autoExtractEffect P s"
  by (auto simp: autoExtractEffect_def split: option.splits)

lemma autoExtractEffect_enabled [simp]:
  "autoExtractEnabled (autoExtractEffect P s) = autoExtractEnabled s"
  by (simp add: autoExtractEffect_def split: option.splits)

lemma autoExtractEffect_history [simp]:
  "history (autoExtractEffect P s) = history s"
  by (simp add: autoExtractEffect_def split: option.splits)

lemma dispatch_InputUrlsChange:
  "dispatch P (InputUrlsChange v) s =
     (if v = inputUrls s then s else autoExtractEffect P (s\<lparr>inputUrls := v\<rparr>))"
  by (simp add: dispatch_def runEffects_def autoExtractDepsChanged_def)

section \<open>Presets\<close>

text \<open>
  Claim C6. A \<open>SavePreset\<close> whose name is empty, whose cleaned old or new domain is
  empty, or whose name is exactly the name of an existing preset is rejected: the whole
  state after the operation, effects included, is the state before it with one error
  notification added. In particular the presets are the same, in memory and in
  \<^verbatim>\<open>localStorage\<close>, and as many as before.
\<close>

theorem savePreset_rejected_unchanged:
  assumes "presetName s = [] \<or> cleanDomain (oldDomain s) = [] \<or> cleanDomain (newDomain s) = [] \<or>
           (\<exists>p \<in> set (presets s). p_name p = presetName s)"
  shows "dispatch P (SavePreset t) s =
           s\<lparr>toasts := toasts s @
               [if presetName s = [] \<or> cleanDomain (oldDomain s) = [] \<or> cleanDomain (newDomain s) = []
                then ErrorPresetFieldsRequired else ErrorPresetNameInUse (presetName s)]\<rparr> \<and>
         presets (dispatch P (SavePreset t) s) = presets s \<and>
         length (presets (dispatch P (SavePreset t) s)) = length (presets s) \<and>
         localStorage (dispatch P (SavePreset t) s) = localStorage s"
proof -
  have rej: "presetRejected s"
    using assms by (auto simp: presetRejected_def list_ex_iff)
  have h: "handle P (SavePreset t) s =
           s\<lparr>toasts := toasts s @
               [if presetName s = [] \<or> cleanDomain (oldDomain s) = [] \<or> cleanDomain (newDomain s) = []
                then ErrorPresetFieldsRequired else ErrorPresetNameInUse (presetName s)]\<rparr>"
  proof (cases "presetName s = [] \<or> cleanDomain (oldDomain s) = [] \<or> cleanDomain (newDomain s) = []")
    case True
    then show ?thesis by (simp add: savePreset_def showToast_def)
  next
    case False
    with assms have "list_ex (\<lambda>p. p_name p = presetName s) (presets s)"
      unfolding list_ex_iff by blast
    with False show ?thesis by (simp add: savePreset_def showToast_def)
  qed
  have "dispatch P (SavePreset t) s = handle P (SavePreset t) s"
    unfolding dispatch_def runEffects_def h
    using rej by (simp add: autoExtractDepsChanged_def)
  with h show ?thesis by simp
qed

theorem savePreset_rejected_unchanged_witness:
  "(\<exists>p \<in> set (presets (presetsExample\<lparr>presetName := js ''prod''\<rparr>)). p_name p = js ''prod'') \<and>
   dispatch ref_platform (SavePreset 1700000000999) (presetsExample\<lparr>presetName := js ''prod''\<rparr>) =
     presetsExample\<lparr>presetName := js ''prod'', toasts := [ErrorPresetNameInUse (js ''prod'')]\<rparr> \<and>
   dispatch ref_platform (SavePreset 1700000000999) presetsExample =
     presetsExample\<lparr>toasts := [ErrorPresetFieldsRequired]\<rparr>"
proof -
  have a: "\<exists>p \<in> set (presets (presetsExample\<lparr>presetName := js ''prod''\<rparr>)).
             p_name p = presetName (presetsExample\<lparr>presetName := js ''prod''\<rparr>)"
    by (simp add: presetsExample_def initialApp_def)
  have b: "presetName presetsExample = []"
    by (simp add: presetsExample_def initialApp_def)
  have c: "cleanDomain (oldDomain presetsExample) \<noteq> [] \<and> cleanDomain (newDomain presetsExample) \<noteq> []"
    by (simp add: presetsExample_def initialApp_def cleanDomain_def removeProtocol_def trim_def
        isWhiteSpace_def asciiLower_def js_def)
  show ?thesis
    using a b c
      savePreset_rejected_unchanged [where s = "presetsExample\<lparr>presetName := js ''prod''\<rparr>"
        and P = ref_platform and t = 1700000000999]
      savePreset_rejected_unchanged [where s = presetsExample and P = ref_platform and t = 1700000000999]
    by (simp add: presetsExample_def initialApp_def js_def)
qed

text \<open>
  Claim C10. \<open>SavePreset\<close> takes the preset name as it was typed: the only checks on
  it are that it is not the empty string and that no existing preset has exactly this
  name. Nothing trims it, so a name made of white space only passes the first check,
  and a name that differs from an existing one in white space only passes the second;
  the preset is appended under the raw name and written to \<^verbatim>\<open>localStorage\<close>.
\<close>

theorem savePreset_raw_name:
  assumes "presetName s \<noteq> []"
    and "cleanDomain (oldDomain s) \<noteq> []"
    and "cleanDomain (newDomain s) \<noteq> []"
    and "\<forall>p \<in> set (presets s). p_name p \<noteq> presetName s"
  shows "presets (dispatch P (SavePreset t) s) =
           presets s @ [\<lparr>p_id = numberToString t, p_name = presetName s,
                         p_oldDomain = cleanDomain (oldDomain s),
                         p_newDomain = cleanDomain (newDomain s)\<rparr>] \<and>
         toasts (dispatch P (SavePreset t) s) = toasts s @ [SuccessPresetSaved (presetName s)] \<and>
         localStorage (dispatch P (SavePreset t) s) presetsKey =
           Some (jsonStringify P (presetsJson (presets (dispatch P (SavePreset t) s))))"
proof -
  have nodup: "\<not> list_ex (\<lambda>p. p_name p = presetName s) (presets s)"
    using assms(4) by (simp add: list_ex_iff)
  have nrej: "\<not> presetRejected s"
    using assms(1-3) nodup by (simp add: presetRejected_def)
  let ?s' = "savePreset t s"
  have h: "?s' = (s\<lparr>presets := presets s @
                    [\<lparr>p_id = numberToString t, p_name = presetName s,
                      p_oldDomain = cleanDomain (oldDomain s), p_newDomain = cleanDomain (newDomain s)\<rparr>],
                presetName := [], oldDomain := cleanDomain (oldDomain s),
                newDomain := cleanDomain (newDomain s),
                toasts := toasts s @ [SuccessPresetSaved (presetName s)]\<rparr>)"
    using assms(1-3) nodup by (simp add: savePreset_def showToast_def Let_def)
  have d: "dispatch P (SavePreset t) s =
        (let s2 = savePresetsEffect P ?s' in if autoExtractDepsChanged s s2 then autoExtractEffect P s2 else s2)"
    using nrej by (simp add: dispatch_def runEffects_def)
  have od: "oldDomain (savePresetsEffect P ?s') \<noteq> []"
    using assms(2) by (simp add: h savePresetsEffect_def)
  have "dispatch P (SavePreset t) s = savePresetsEffect P ?s'"
    unfolding d Let_def using autoExtractEffect_filled [OF od] by simp
  then show ?thesis
    by (simp add: h savePresetsEffect_def saveStored_def presetsJson_def)
qed

theorem savePreset_raw_name_witness:
  "presets (dispatch ref_platform (SavePreset 1700000000999) (presetsExample\<lparr>presetName := js ''  ''\<rparr>)) =
     [\<lparr>p_id = js ''1700000000000'', p_name = js ''prod'', p_oldDomain = js ''a.com'', p_newDomain = js ''b.com''\<rparr>,
      \<lparr>p_id = js ''1700000000999'', p_name = js ''  '', p_oldDomain = js ''a.com'', p_newDomain = js ''c.com''\<rparr>] \<and>
   presets (dispatch ref_platform (SavePreset 1700000000999) (presetsExample\<lparr>presetName := js '' prod''\<rparr>)) =
     [\<lparr>p_id = js ''1700000000000'', p_name = js ''prod'', p_oldDomain = js ''a.com'', p_newDomain = js ''b.com''\<rparr>,
      \<lparr>p_id = js ''1700000000999'', p_name = js '' prod'', p_oldDomain = js ''a.com'', p_newDomain = js ''c.com''\<rparr>]"
proof -
  have c: "cleanDomain (js ''a.com'') = js ''a.com'' \<and> cleanDomain (js ''https://c.com'') = js ''c.com''"
    by (simp add: cleanDomain_def removeProtocol_def trim_def isWhiteSpace_def asciiLower_def js_def)
  have n: "numberToString 1700000000999 = js ''1700000000999''"
    by (simp add: numberToString_def decimal.simps js_def)
  have j: "js ''a.com'' \<noteq> [] \<and> js ''c.com'' \<noteq> [] \<and> js ''  '' \<noteq> [] \<and> js '' prod'' \<noteq> [] \<and>
           js ''prod'' \<noteq> js ''  '' \<and> js ''prod'' \<noteq> js '' prod''"
    by (simp add: js_def)
  show ?thesis
    using c n j
      savePreset_raw_name [where s = "presetsExample\<lparr>presetName := js ''  ''\<rparr>"
        and P = ref_platform and t = 1700000000999]
      savePreset_raw_name [where s = "presetsExample\<lparr>presetName := js '' prod''\<rparr>"
        and P = ref_platform and t = 1700000000999]
    by (simp add: presetsExample_def initialApp_def)
qed

section \<open>History\<close>

lemma runEffects_history [simp]:
  "history (runEffects P ev s s') = history s'"
  by (simp add: runEffects_def Let_def saveHistoryEffect_def savePresetsEffect_def)










subsection \<open>The history after mounting\<close>

lemma historyEntryOfJson_historyEntryJson [simp]: "historyEntryOfJson (historyEntryJson e) = Some e"
  by (simp add: historyEntryOfJson_def historyEntryJson_def)





lemma extractCommonDomain_empty: "extractCommonDomain P [] = None"
  by (simp add: extractCommonDomain_def nonBlankLines_def trim_def)

lemma mount_start:
  "autoExtractEffect P (savePresetsEffect P (saveHistoryEffect P (initialApp store))) =
     initialApp (store(historyKey := None, presetsKey := None))"
  by (simp add: autoExtractEffect_def extractCommonDomain_empty savePresetsEffect_def
      saveHistoryEffect_def saveStored_def initialApp_def)


lemma mount_empty_storage: "mount P (\<lambda>k. None) = Some (initialApp (\<lambda>k. None))"
  by (simp add: mount_def mount_start loadStored_def setLoadedHistory_def setLoadedPresets_def)










section \<open>Replace with a missing field\<close>

text \<open>
  Claim C2, as amended. When the input text, the cleaned old domain or the cleaned new
  domain is empty, \<open>Replace\<close> raises the error notification and leaves the input text,
  the output text, the history, the presets and \<^verbatim>\<open>localStorage\<close> as they were; but
  the handler has already stored the cleaned (trimmed, protocol-stripped) forms in the
  old-domain and new-domain fields (lines 135-136 precede the validation of line 141).
  If that empties an old-domain field that held white space, the auto-extract effect
  runs on the changed field and may fill it from the input text.
\<close>

theorem replace_missing_field:
  assumes "inputUrls s = [] \<or> cleanDomain (oldDomain s) = [] \<or> cleanDomain (newDomain s) = []"
  shows "handleReplace P t t' s =
           s\<lparr>oldDomain := cleanDomain (oldDomain s), newDomain := cleanDomain (newDomain s),
             toasts := toasts s @ [ErrorAllFieldsRequired]\<rparr> \<and>
         dispatch P (Replace t t') s =
           (if cleanDomain (oldDomain s) = oldDomain s
            then s\<lparr>oldDomain := cleanDomain (oldDomain s), newDomain := cleanDomain (newDomain s),
                   toasts := toasts s @ [ErrorAllFieldsRequired]\<rparr>
            else autoExtractEffect P
                   (s\<lparr>oldDomain := cleanDomain (oldDomain s), newDomain := cleanDomain (newDomain s),
                      toasts := toasts s @ [ErrorAllFieldsRequired]\<rparr>)) \<and>
         (\<exists>od. dispatch P (Replace t t') s =
                 s\<lparr>oldDomain := od, newDomain := cleanDomain (newDomain s),
                   toasts := toasts s @ [ErrorAllFieldsRequired]\<rparr> \<and>
               (od = cleanDomain (oldDomain s) \<or>
                (cleanDomain (oldDomain s) = [] \<and> oldDomain s \<noteq> [] \<and> autoExtractEnabled s \<and>
                 (\<exists>cd. extractCommonDomain P (inputUrls s) = Some cd \<and> cd \<noteq> [] \<and>
                       od = removeProtocol cd))))"
proof -
  let ?s1 = "s\<lparr>oldDomain := cleanDomain (oldDomain s), newDomain := cleanDomain (newDomain s),
               toasts := toasts s @ [ErrorAllFieldsRequired]\<rparr>"
  have miss: "missingFields s"
    using assms by (simp add: missingFields_def)
  have h: "handleReplace P t t' s = ?s1"
    using miss by (simp add: handleReplace_def showToast_def Let_def)
  have d: "dispatch P (Replace t t') s =
             (if autoExtractDepsChanged s ?s1 then autoExtractEffect P ?s1 else ?s1)"
    using miss by (simp add: dispatch_def runEffects_def h)
  have dc: "autoExtractDepsChanged s ?s1 \<longleftrightarrow> cleanDomain (oldDomain s) \<noteq> oldDomain s"
    by (simp add: autoExtractDepsChanged_def)
  have d': "dispatch P (Replace t t') s =
             (if cleanDomain (oldDomain s) = oldDomain s then ?s1 else autoExtractEffect P ?s1)"
    unfolding d dc by simp
  have ex: "\<exists>od. dispatch P (Replace t t') s =
                 s\<lparr>oldDomain := od, newDomain := cleanDomain (newDomain s),
                   toasts := toasts s @ [ErrorAllFieldsRequired]\<rparr> \<and>
               (od = cleanDomain (oldDomain s) \<or>
                (cleanDomain (oldDomain s) = [] \<and> oldDomain s \<noteq> [] \<and> autoExtractEnabled s \<and>
                 (\<exists>cd. extractCommonDomain P (inputUrls s) = Some cd \<and> cd \<noteq> [] \<and>
                       od = removeProtocol cd)))"
  proof (cases "autoExtractDepsChanged s ?s1")
    case False
    with d have "dispatch P (Replace t t') s = ?s1" by simp
    then show ?thesis
      by (intro exI [of _ "cleanDomain (oldDomain s)"]) simp
  next
    case True
    then have ch: "cleanDomain (oldDomain s) \<noteq> oldDomain s"
      by (simp add: autoExtractDepsChanged_def)
    from d True have e: "dispatch P (Replace t t') s = autoExtractEffect P ?s1" by simp
    from autoExtractEffect_cases [of P ?s1] show ?thesis
    proof
      assume "autoExtractEffect P ?s1 = ?s1"
      with e have "dispatch P (Replace t t') s = ?s1" by simp
      then show ?thesis
        by (intro exI [of _ "cleanDomain (oldDomain s)"]) simp
    next
      assume a: "autoExtractEnabled ?s1 \<and> oldDomain ?s1 = [] \<and>
        (\<exists>cd. extractCommonDomain P (inputUrls ?s1) = Some cd \<and> cd \<noteq> [] \<and>
          autoExtractEffect P ?s1 = ?s1\<lparr>oldDomain := removeProtocol cd\<rparr>)"
      then obtain cd where cd: "extractCommonDomain P (inputUrls s) = Some cd" "cd \<noteq> []"
        "autoExtractEffect P ?s1 = ?s1\<lparr>oldDomain := removeProtocol cd\<rparr>"
        by auto
      from a have en: "autoExtractEnabled s" and em: "cleanDomain (oldDomain s) = []"
        by simp_all
      from ch em have ne: "oldDomain s \<noteq> []" by auto
      have "dispatch P (Replace t t') s =
              s\<lparr>oldDomain := removeProtocol cd, newDomain := cleanDomain (newDomain s),
                toasts := toasts s @ [ErrorAllFieldsRequired]\<rparr>"
        using e cd(3) by simp
      with cd en em ne show ?thesis
        by (intro exI [of _ "removeProtocol cd"]) blast
    qed
  qed
  from h d' ex show ?thesis by (intro conjI)
qed

text \<open>
  The claim as stated fails: typing \<^verbatim>\<open>" a.com "\<close> into the old-domain field of the
  initial state and pressing Replace (no input text) changes the old-domain field to
  \<^verbatim>\<open>"a.com"\<close>.
\<close>

theorem replace_missing_field_counterexample:
  "dispatch ref_platform (OldDomainChange (js '' a.com '')) (initialApp (\<lambda>k. None)) = paddedExample \<and>
   inputUrls paddedExample = [] \<and>
   oldDomain paddedExample = js '' a.com '' \<and>
   oldDomain (dispatch ref_platform (Replace 1700000000000 1700000000001) paddedExample) = js ''a.com'' \<and>
   oldDomain (dispatch ref_platform (Replace 1700000000000 1700000000001) paddedExample) \<noteq>
     oldDomain paddedExample"
proof -
  have c: "cleanDomain (js '' a.com '') = js ''a.com''" "removeProtocol (js '' a.com '') = js '' a.com ''"
    by (simp_all add: eval_strings)
  have n: "js ''a.com'' \<noteq> []" "js '' a.com '' \<noteq> []" "js ''a.com'' \<noteq> js '' a.com ''"
    by (simp_all add: js_def)
  have a: "dispatch ref_platform (OldDomainChange (js '' a.com '')) (initialApp (\<lambda>k. None)) = paddedExample"
    using c n autoExtractEffect_filled [of paddedExample ref_platform]
    by (simp add: dispatch_def runEffects_def autoExtractDepsChanged_def handleOldDomainChange_def
        paddedExample_def initialApp_def)
  have m: "missingFields paddedExample"
    by (simp add: missingFields_def paddedExample_def initialApp_def)
  have "oldDomain (handleReplace ref_platform 1700000000000 1700000000001 paddedExample) = js ''a.com''"
    using m c by (simp add: handleReplace_def showToast_def Let_def paddedExample_def initialApp_def)
  moreover have "oldDomain (dispatch ref_platform (Replace 1700000000000 1700000000001) paddedExample) =
      oldDomain (handleReplace ref_platform 1700000000000 1700000000001 paddedExample)"
    using m n calculation
      autoExtractEffect_filled [of "handleReplace ref_platform 1700000000000 1700000000001 paddedExample" ref_platform]
    by (simp add: dispatch_def runEffects_def Let_def)
  ultimately show ?thesis
    using a n by (simp add: paddedExample_def initialApp_def)
qed

theorem replace_missing_field_witness:
  "inputUrls paddedExample = [] \<and>
   dispatch ref_platform (Replace 1700000000000 1700000000001) paddedExample =
     paddedExample\<lparr>oldDomain := js ''a.com'', toasts := [ErrorAllFieldsRequired]\<rparr> \<and>
   cleanDomain (newDomain refillExample) = [] \<and>
   dispatch ref_platform (Replace 1700000000000 1700000000001) refillExample =
     refillExample\<lparr>oldDomain := js ''a.com'', toasts := [ErrorAllFieldsRequired]\<rparr>"
proof -
  have c: "cleanDomain (js '' a.com '') = js ''a.com''" "cleanDomain (js '' '') = []" "cleanDomain [] = []"
    "removeProtocol (js ''a.com'') = js ''a.com''"
    by (simp_all add: eval_strings)
  have n: "js ''a.com'' \<noteq> []" "js '' '' \<noteq> []"
    by (simp_all add: js_def)
  have e: "inputUrls paddedExample = []" "cleanDomain (newDomain refillExample) = []"
    using c by (simp_all add: paddedExample_def refillExample_def initialApp_def)
  have x: "extractCommonDomain ref_platform [] = None"
    by (simp add: eval_extract eval_strings)
  from replace_missing_field [where s = paddedExample and P = ref_platform
      and t = 1700000000000 and t' = 1700000000001] e(1)
  have a: "dispatch ref_platform (Replace 1700000000000 1700000000001) paddedExample =
     paddedExample\<lparr>oldDomain := js ''a.com'', toasts := [ErrorAllFieldsRequired]\<rparr>"
    using c n by (auto simp: paddedExample_def initialApp_def)
  from replace_missing_field [where s = refillExample and P = ref_platform
      and t = 1700000000000 and t' = 1700000000001] e(2)
  have "dispatch ref_platform (Replace 1700000000000 1700000000001) refillExample =
     autoExtractEffect ref_platform
       (refillExample\<lparr>oldDomain := [], newDomain := [], toasts := [ErrorAllFieldsRequired]\<rparr>)"
    using c n by (simp add: refillExample_def initialApp_def)
  then have b: "dispatch ref_platform (Replace 1700000000000 1700000000001) refillExample =
     refillExample\<lparr>oldDomain := js ''a.com'', toasts := [ErrorAllFieldsRequired]\<rparr>"
    using c n extract_single by (simp add: autoExtractEffect_def refillExample_def initialApp_def)
  show ?thesis using a b e by simp
qed

section \<open>Auto-extraction\<close>

lemma run_inputs_disabled:
  "\<not> autoExtractEnabled s \<Longrightarrow> oldDomain (run P (map InputUrlsChange vs) s) = oldDomain s"
proof (induction vs arbitrary: s)
  case Nil
  show ?case by (simp add: run_def)
next
  case (Cons v vs)
  let ?s' = "dispatch P (InputUrlsChange v) s"
  have "\<not> autoExtractEnabled ?s'" and "oldDomain ?s' = oldDomain s"
    using Cons.prems by (simp_all add: dispatch_InputUrlsChange autoExtractEffect_disabled)
  with Cons.IH [of ?s'] show ?case by (simp add: run_def)
qed

lemma run_inputs_filled:
  "oldDomain s \<noteq> [] \<Longrightarrow> oldDomain (run P (map InputUrlsChange vs) s) = oldDomain s"
proof (induction vs arbitrary: s)
  case Nil
  show ?case by (simp add: run_def)
next
  case (Cons v vs)
  let ?s' = "dispatch P (InputUrlsChange v) s"
  have "oldDomain ?s' = oldDomain s"
    using Cons.prems by (simp add: dispatch_InputUrlsChange autoExtractEffect_filled)
  with Cons.IH [of ?s'] Cons.prems show ?case by (simp add: run_def)
qed

text \<open>
  Claim C9. The auto-extract effect either leaves the state as it is or writes the
  protocol-stripped result of the extractor into the old-domain field, and it writes
  only when the toggle is enabled, the extractor returned a (non-empty) hostname and the
  old-domain field is empty. A change of the input text that changes the old-domain field
  does so under exactly these conditions. Under any sequence of input-text changes a
  non-empty old-domain field keeps its value, and while the toggle is disabled the
  old-domain field keeps its value whatever it is.
\<close>

theorem autoExtract_one_way:
  "(autoExtractEffect P s = s \<or>
     (autoExtractEnabled s \<and> oldDomain s = [] \<and>
      (\<exists>cd. extractCommonDomain P (inputUrls s) = Some cd \<and> cd \<noteq> [] \<and>
            autoExtractEffect P s = s\<lparr>oldDomain := removeProtocol cd\<rparr>))) \<and>
   (oldDomain (dispatch P (InputUrlsChange v) s) \<noteq> oldDomain s \<longrightarrow>
      autoExtractEnabled s \<and> oldDomain s = [] \<and>
      (\<exists>cd. extractCommonDomain P v = Some cd \<and>
            oldDomain (dispatch P (InputUrlsChange v) s) = removeProtocol cd)) \<and>
   (oldDomain s \<noteq> [] \<longrightarrow> oldDomain (run P (map InputUrlsChange vs) s) = oldDomain s) \<and>
   (\<not> autoExtractEnabled s \<longrightarrow> oldDomain (run P (map InputUrlsChange vs) s) = oldDomain s)"
proof -
  have step: "autoExtractEnabled s \<and> oldDomain s = [] \<and>
      (\<exists>cd. extractCommonDomain P v = Some cd \<and>
            oldDomain (dispatch P (InputUrlsChange v) s) = removeProtocol cd)"
    if neq: "oldDomain (dispatch P (InputUrlsChange v) s) \<noteq> oldDomain s"
  proof -
    from neq have v: "v \<noteq> inputUrls s"
      by (auto simp: dispatch_InputUrlsChange)
    then have d: "dispatch P (InputUrlsChange v) s = autoExtractEffect P (s\<lparr>inputUrls := v\<rparr>)"
      by (simp add: dispatch_InputUrlsChange)
    from autoExtractEffect_cases [of P "s\<lparr>inputUrls := v\<rparr>"] neq d show ?thesis
      by auto
  qed
  show ?thesis
    using autoExtractEffect_cases [of P s] step run_inputs_filled [of s P vs]
      run_inputs_disabled [of s P vs]
    by blast
qed

theorem autoExtract_one_way_witness:
  "oldDomain (dispatch ref_platform (InputUrlsChange majorityText) (initialApp (\<lambda>k. None))) = js ''a.com'' \<and>
   oldDomain (dispatch ref_platform (InputUrlsChange majorityText) (initialApp (\<lambda>k. None))) \<noteq>
     oldDomain (initialApp (\<lambda>k. None)) \<and>
   autoExtractEnabled (initialApp (\<lambda>k. None)) \<and>
   oldDomain (run ref_platform (map InputUrlsChange [majorityText, js ''https://b.com/y''])
      ((initialApp (\<lambda>k. None))\<lparr>oldDomain := js ''x.org''\<rparr>)) = js ''x.org'' \<and>
   oldDomain (run ref_platform (map InputUrlsChange [majorityText, js ''https://b.com/y''])
      ((initialApp (\<lambda>k. None))\<lparr>autoExtractEnabled := False\<rparr>)) = []"
proof -
  have n: "js ''a.com'' \<noteq> []" "js ''x.org'' \<noteq> []" "majorityText \<noteq> []"
    "removeProtocol (js ''a.com'') = js ''a.com''"
    by (simp_all add: js_def majorityText_def removeProtocol_def asciiLower_def)
  have a: "oldDomain (dispatch ref_platform (InputUrlsChange majorityText) (initialApp (\<lambda>k. None))) = js ''a.com''"
    using n extract_majority
    by (simp add: dispatch_InputUrlsChange autoExtractEffect_def initialApp_def)
  note T1 = autoExtract_one_way [where P = ref_platform and v = majorityText
      and s = "initialApp (\<lambda>k. None)"]
  note T2 = autoExtract_one_way [where P = ref_platform
      and vs = "[majorityText, js ''https://b.com/y'']"
      and s = "(initialApp (\<lambda>k. None))\<lparr>oldDomain := js ''x.org''\<rparr>"]
  note T3 = autoExtract_one_way [where P = ref_platform
      and vs = "[majorityText, js ''https://b.com/y'']"
      and s = "(initialApp (\<lambda>k. None))\<lparr>autoExtractEnabled := False\<rparr>"]
  have i: "oldDomain (initialApp (\<lambda>k. None)) = []"
    by (simp add: initialApp_def)
  from a n i have neq: "oldDomain (dispatch ref_platform (InputUrlsChange majorityText) (initialApp (\<lambda>k. None))) \<noteq>
     oldDomain (initialApp (\<lambda>k. None))"
    by simp
  with T1 have en: "autoExtractEnabled (initialApp (\<lambda>k. None))" by blast
  have f: "oldDomain ((initialApp (\<lambda>k. None))\<lparr>oldDomain := js ''x.org''\<rparr>) \<noteq> []"
    using n by simp
  with T2 have b: "oldDomain (run ref_platform (map InputUrlsChange [majorityText, js ''https://b.com/y''])
      ((initialApp (\<lambda>k. None))\<lparr>oldDomain := js ''x.org''\<rparr>)) = js ''x.org''"
    by simp
  have "\<not> autoExtractEnabled ((initialApp (\<lambda>k. None))\<lparr>autoExtractEnabled := False\<rparr>)"
    by simp
  with T3 have c: "oldDomain (run ref_platform (map InputUrlsChange [majorityText, js ''https://b.com/y''])
      ((initialApp (\<lambda>k. None))\<lparr>autoExtractEnabled := False\<rparr>)) = []"
    by (simp add: i)
  from a neq en b c show ?thesis by (intro conjI)
qed

section \<open>Replace\<close>

lemma replaceUrl_counter:
  "replaceUrl P old new c l =
     (fst (replaceUrl P old new 0 l), c + (if parseURL P (trim l) = None then 1 else 0))"
  by (simp add: replaceUrl_def split: option.splits)

lemma mapUrls_eq:
  "mapUrls P old new c ls =
     (map (\<lambda>l. fst (replaceUrl P old new 0 l)) ls,
      c + length (filter (\<lambda>l. parseURL P (trim l) = None) ls))"
proof (induction ls arbitrary: c)
  case Nil
  show ?case by simp
next
  case (Cons l ls)
  show ?case
    by (subst mapUrls.simps, subst replaceUrl_counter) (simp add: Cons.IH)
qed

lemma replaceUrl_outcome:
  "(parseURL P (trim l) = None \<and> fst (replaceUrl P old new 0 l) = trim l @ invalidMarker) \<or>
   (\<exists>u. parseURL P (trim l) = Some u \<and> toLowerCase P (hostname u) \<noteq> toLowerCase P old \<and>
        fst (replaceUrl P old new 0 l) = trim l) \<or>
   (\<exists>u. parseURL P (trim l) = Some u \<and> toLowerCase P (hostname u) = toLowerCase P old \<and>
        fst (replaceUrl P old new 0 l) = serializeURL P (setHostname P new u))"
  by (cases "parseURL P (trim l)") (auto simp: replaceUrl_def)

lemma dispatch_Replace_valid:
  assumes "\<not> missingFields s"
  shows "dispatch P (Replace t t') s = saveHistoryEffect P (handleReplace P t t' s)"
proof -
  have "cleanDomain (oldDomain s) \<noteq> []"
    using assms by (simp add: missingFields_def)
  then have "oldDomain (saveHistoryEffect P (handleReplace P t t' s)) \<noteq> []"
    using assms
    by (simp add: saveHistoryEffect_def handleReplace_def showToast_def Let_def split: prod.splits)
  then have "autoExtractEffect P (saveHistoryEffect P (handleReplace P t t' s)) =
      saveHistoryEffect P (handleReplace P t t' s)"
    by (rule autoExtractEffect_filled)
  with assms show ?thesis
    by (simp add: dispatch_def runEffects_def Let_def)
qed

lemma handleReplace_valid:
  assumes "\<not> missingFields s"
  shows "handleReplace P t t' s =
     s\<lparr>oldDomain := cleanDomain (oldDomain s), newDomain := cleanDomain (newDomain s),
       outputUrls := join LF (fst (replaceUrls P (inputUrls s) (cleanDomain (oldDomain s)) (cleanDomain (newDomain s)))),
       history := newHistoryEntry t t' s # take 19 (history s),
       toasts := toasts s @
         (if snd (replaceUrls P (inputUrls s) (cleanDomain (oldDomain s)) (cleanDomain (newDomain s))) > 0
          then [WarningInvalidUrls (snd (replaceUrls P (inputUrls s) (cleanDomain (oldDomain s)) (cleanDomain (newDomain s))))]
          else []) @ [SuccessReplaced]\<rparr>"
  using assms by (simp add: handleReplace_def showToast_def Let_def split: prod.splits)

lemma replaceUrl_outcome_setter:
  "(parseURL P (trim l) = None \<and> fst (replaceUrl P old new 0 l) = trim l @ invalidMarker) \<or>
   (\<exists>u. parseURL P (trim l) = Some u \<and> toLowerCase P (hostname u) \<noteq> toLowerCase P old \<and>
        fst (replaceUrl P old new 0 l) = trim l) \<or>
   (\<exists>u h. parseURL P (trim l) = Some u \<and> toLowerCase P (hostname u) = toLowerCase P old \<and>
        hostnameSetter P u new = Some h \<and>
        fst (replaceUrl P old new 0 l) = serializeURL P (u\<lparr>host := Some h\<rparr>)) \<or>
   (\<exists>u. parseURL P (trim l) = Some u \<and> toLowerCase P (hostname u) = toLowerCase P old \<and>
        hostnameSetter P u new = None \<and>
        fst (replaceUrl P old new 0 l) = serializeURL P u)"
proof (cases "parseURL P (trim l)")
  case None
  then show ?thesis by (simp add: replaceUrl_def)
next
  case (Some u)
  show ?thesis
  proof (cases "toLowerCase P (hostname u) = toLowerCase P old")
    case False
    with Some show ?thesis by (simp add: replaceUrl_def)
  next
    case True
    with Some show ?thesis
      by (cases "hostnameSetter P u new") (simp_all add: replaceUrl_def setHostname_def)
  qed
qed

text \<open>
  Claim C4, as amended. With a non-empty input text and non-empty cleaned domains,
  \<open>Replace\<close> builds one output line for each piece of the input text between line
  feeds that is not empty after trimming, in the same order, and joins them with line
  feeds. Every output line falls under exactly one of four cases, decided by the input
  line: the line does not parse and the output is the trimmed line followed by the
  invalid-URL marker; the line parses to a URL whose hostname is not the old domain
  (letter case ignored) and the output is the trimmed line; the line parses to a URL
  whose hostname is the old domain, the platform accepts the new domain as a host, and
  the output is the serialization of the URL with that host; the line parses to a URL
  whose hostname is the old domain, the platform ignores the assignment of the new
  domain, and the output is the serialization of the parsed URL, its host as it was. The
  count reported in the warning is the number of lines of the first case. When the
  serializations contain no line feed (those of the URL standard contain none), splitting
  the output text at line feeds gives the output lines back.
\<close>

theorem replace_lines_classified:
  assumes "inputUrls s \<noteq> []" and "cleanDomain (oldDomain s) \<noteq> []" and "cleanDomain (newDomain s) \<noteq> []"
  shows "\<exists>out n.
      replaceUrls P (inputUrls s) (cleanDomain (oldDomain s)) (cleanDomain (newDomain s)) = (out, n) \<and>
      outputUrls (dispatch P (Replace t t') s) = join LF out \<and>
      length out = length (filter (\<lambda>l. trim l \<noteq> []) (split_on LF (inputUrls s))) \<and>
      (\<forall>i < length out.
         (parseURL P (trim (filter (\<lambda>l. trim l \<noteq> []) (split_on LF (inputUrls s)) ! i)) = None \<and>
          out ! i = trim (filter (\<lambda>l. trim l \<noteq> []) (split_on LF (inputUrls s)) ! i) @ invalidMarker) \<or>
         (\<exists>u. parseURL P (trim (filter (\<lambda>l. trim l \<noteq> []) (split_on LF (inputUrls s)) ! i)) = Some u \<and>
              toLowerCase P (hostname u) \<noteq> toLowerCase P (cleanDomain (oldDomain s)) \<and>
              out ! i = trim (filter (\<lambda>l. trim l \<noteq> []) (split_on LF (inputUrls s)) ! i)) \<or>
         (\<exists>u h. parseURL P (trim (filter (\<lambda>l. trim l \<noteq> []) (split_on LF (inputUrls s)) ! i)) = Some u \<and>
              toLowerCase P (hostname u) = toLowerCase P (cleanDomain (oldDomain s)) \<and>
              hostnameSetter P u (cleanDomain (newDomain s)) = Some h \<and>
              out ! i = serializeURL P (u\<lparr>host := Some h\<rparr>)) \<or>
         (\<exists>u. parseURL P (trim (filter (\<lambda>l. trim l \<noteq> []) (split_on LF (inputUrls s)) ! i)) = Some u \<and>
              toLowerCase P (hostname u) = toLowerCase P (cleanDomain (oldDomain s)) \<and>
              hostnameSetter P u (cleanDomain (newDomain s)) = None \<and>
              out ! i = serializeURL P u)) \<and>
      n = length (filter (\<lambda>l. parseURL P (trim l) = None)
            (filter (\<lambda>l. trim l \<noteq> []) (split_on LF (inputUrls s)))) \<and>
      toasts (dispatch P (Replace t t') s) =
        toasts s @ (if n > 0 then [WarningInvalidUrls n] else []) @ [SuccessReplaced] \<and>
      ((\<forall>l \<in> set (filter (\<lambda>l. trim l \<noteq> []) (split_on LF (inputUrls s))). \<forall>u.
           parseURL P (trim l) = Some u \<longrightarrow>
           LF \<notin> set (serializeURL P (setHostname P (cleanDomain (newDomain s)) u))) \<and> out \<noteq> [] \<longrightarrow>
       split_on LF (outputUrls (dispatch P (Replace t t') s)) = out)"
proof -
  let ?old = "cleanDomain (oldDomain s)" and ?new = "cleanDomain (newDomain s)"
  let ?ls = "filter (\<lambda>l. trim l \<noteq> []) (split_on LF (inputUrls s))"
  let ?out = "map (\<lambda>l. fst (replaceUrl P ?old ?new 0 l)) ?ls"
  let ?n = "length (filter (\<lambda>l. parseURL P (trim l) = None) ?ls)"
  have ls: "nonBlankLines (inputUrls s) = ?ls"
    by (simp add: nonBlankLines_def)
  have valid: "\<not> missingFields s"
    using assms by (simp add: missingFields_def)
  have r: "replaceUrls P (inputUrls s) ?old ?new = (?out, ?n)"
    by (simp add: replaceUrls_def mapUrls_eq ls)
  have d: "dispatch P (Replace t t') s = saveHistoryEffect P (handleReplace P t t' s)"
    by (rule dispatch_Replace_valid [OF valid])
  have o: "outputUrls (dispatch P (Replace t t') s) = join LF ?out"
    by (simp add: d handleReplace_valid [OF valid] saveHistoryEffect_def r)
  have ts: "toasts (dispatch P (Replace t t') s) =
        toasts s @ (if ?n > 0 then [WarningInvalidUrls ?n] else []) @ [SuccessReplaced]"
    by (simp add: d handleReplace_valid [OF valid] saveHistoryEffect_def r)
  have cls: "\<forall>i < length ?out.
         (parseURL P (trim (?ls ! i)) = None \<and> ?out ! i = trim (?ls ! i) @ invalidMarker) \<or>
         (\<exists>u. parseURL P (trim (?ls ! i)) = Some u \<and>
              toLowerCase P (hostname u) \<noteq> toLowerCase P ?old \<and> ?out ! i = trim (?ls ! i)) \<or>
         (\<exists>u h. parseURL P (trim (?ls ! i)) = Some u \<and>
              toLowerCase P (hostname u) = toLowerCase P ?old \<and>
              hostnameSetter P u ?new = Some h \<and> ?out ! i = serializeURL P (u\<lparr>host := Some h\<rparr>)) \<or>
         (\<exists>u. parseURL P (trim (?ls ! i)) = Some u \<and>
              toLowerCase P (hostname u) = toLowerCase P ?old \<and>
              hostnameSetter P u ?new = None \<and> ?out ! i = serializeURL P u)"
    using replaceUrl_outcome_setter [of P _ ?old ?new] by simp
  have nl: "split_on LF (join LF ?out) = ?out"
    if ser: "\<forall>l \<in> set ?ls. \<forall>u. parseURL P (trim l) = Some u \<longrightarrow>
           LF \<notin> set (serializeURL P (setHostname P ?new u))"
      and ne: "?out \<noteq> []"
  proof (rule split_on_join [OF ne], rule ballI)
    fix r assume "r \<in> set ?out"
    then obtain l where l: "l \<in> set ?ls" and rl: "r = fst (replaceUrl P ?old ?new 0 l)"
      by auto
    from l have l': "l \<in> set (nonBlankLines (inputUrls s))"
      by (simp only: ls)
    have "LF \<notin> set (trim l)"
      using nonBlankLines_no_LF [OF l'] set_trim [of l] by blast
    with replaceUrl_outcome [of P l ?old ?new] ser l rl invalidMarker_no_LF
    show "LF \<notin> set r" by auto
  qed
  show ?thesis
    apply (rule exI [of _ ?out], rule exI [of _ ?n])
    using r o ts cls nl by simp
qed

text \<open>
  The claim as stated fails when the platform refuses the new domain as a host. With the
  new domain \<^verbatim>\<open>c com\<close> the line \<^verbatim>\<open>HTTPS://A.com/x\<close> matches the old domain
  \<^verbatim>\<open>a.com\<close> and comes out as \<^verbatim>\<open>https://a.com/x\<close>: not the trimmed line, not
  marked as invalid, and its hostname is still \<^verbatim>\<open>a.com\<close>, while the operation
  reports success.
\<close>

theorem replace_lines_classified_counterexample:
  "inputUrls refusedExample = js ''HTTPS://A.com/x'' \<and>
   cleanDomain (oldDomain refusedExample) = js ''a.com'' \<and>
   cleanDomain (newDomain refusedExample) = js ''c com'' \<and>
   outputUrls (dispatch ref_platform (Replace 1700000000000 1700000000001) refusedExample) =
     js ''https://a.com/x'' \<and>
   toasts (dispatch ref_platform (Replace 1700000000000 1700000000001) refusedExample) = [SuccessReplaced] \<and>
   js ''https://a.com/x'' \<noteq> trim (js ''HTTPS://A.com/x'') \<and>
   js ''https://a.com/x'' \<noteq> trim (js ''HTTPS://A.com/x'') @ invalidMarker \<and>
   map_option hostname (parseURL ref_platform (js ''https://a.com/x'')) = Some (js ''a.com'')"
proof -
  have c: "cleanDomain (js ''a.com'') = js ''a.com''" "cleanDomain (js ''c com'') = js ''c com''"
    by (simp_all add: eval_strings)
  have n: "js ''a.com'' \<noteq> []" "js ''c com'' \<noteq> []" "js ''HTTPS://A.com/x'' \<noteq> []"
    by (simp_all add: js_def)
  have valid: "\<not> missingFields refusedExample"
    using c n by (simp add: missingFields_def refusedExample_def initialApp_def)
  have d: "dispatch ref_platform (Replace 1700000000000 1700000000001) refusedExample =
      saveHistoryEffect ref_platform (handleReplace ref_platform 1700000000000 1700000000001 refusedExample)"
    by (rule dispatch_Replace_valid [OF valid])
  have r: "replaceUrls ref_platform (inputUrls refusedExample) (cleanDomain (oldDomain refusedExample))
      (cleanDomain (newDomain refusedExample)) = ([js ''https://a.com/x''], 0)"
    using c replaceUrls_refused by (simp add: refusedExample_def initialApp_def)
  have o: "outputUrls (dispatch ref_platform (Replace 1700000000000 1700000000001) refusedExample) =
      js ''https://a.com/x''"
    by (simp add: d handleReplace_valid [OF valid] saveHistoryEffect_def r)
  have ts: "toasts (dispatch ref_platform (Replace 1700000000000 1700000000001) refusedExample) =
      [SuccessReplaced]"
    by (simp add: d handleReplace_valid [OF valid] saveHistoryEffect_def r)
       (simp add: refusedExample_def initialApp_def)
  have i: "inputUrls refusedExample = js ''HTTPS://A.com/x''"
    "cleanDomain (oldDomain refusedExample) = js ''a.com''"
    "cleanDomain (newDomain refusedExample) = js ''c com''"
    using c by (simp_all add: refusedExample_def initialApp_def)
  have t: "js ''https://a.com/x'' \<noteq> trim (js ''HTTPS://A.com/x'')"
    "js ''https://a.com/x'' \<noteq> trim (js ''HTTPS://A.com/x'') @ invalidMarker"
    by (simp_all add: eval_strings invalidMarker_def)
  have p: "map_option hostname (parseURL ref_platform (js ''https://a.com/x'')) = Some (js ''a.com'')"
    by (simp add: eval_url eval_strings Let_def)
  from i o ts t p show ?thesis by (intro conjI)
qed

theorem replace_lines_classified_witness:
  "inputUrls replaceExample \<noteq> [] \<and>
   cleanDomain (oldDomain replaceExample) = js ''a.com'' \<and>
   cleanDomain (newDomain replaceExample) = js ''c.com'' \<and>
   split_on LF (inputUrls replaceExample) =
     [js ''https://a.com/x'', [], js ''   '', js '' https://b.com/y '', js ''not a url'', []] \<and>
   filter (\<lambda>l. trim l \<noteq> []) (split_on LF (inputUrls replaceExample)) =
     [js ''https://a.com/x'', js '' https://b.com/y '', js ''not a url''] \<and>
   outputUrls (dispatch ref_platform (Replace 1700000000000 1700000000001) replaceExample) =
     join LF [js ''https://c.com/x'', js ''https://b.com/y'', js ''not a url'' @ invalidMarker] \<and>
   toasts (dispatch ref_platform (Replace 1700000000000 1700000000001) replaceExample) =
     [WarningInvalidUrls 1, SuccessReplaced] \<and>
   split_on LF (outputUrls (dispatch ref_platform (Replace 1700000000000 1700000000001) replaceExample)) =
     [js ''https://c.com/x'', js ''https://b.com/y'', js ''not a url'' @ invalidMarker]"
proof -
  let ?ls = "filter (\<lambda>l. trim l \<noteq> []) (split_on LF (inputUrls replaceExample))"
  have c: "cleanDomain (js ''a.com'') = js ''a.com''" "cleanDomain (js ''c.com'') = js ''c.com''"
    by (simp_all add: eval_strings)
  have n: "js ''a.com'' \<noteq> []" "js ''c.com'' \<noteq> []"
    "join LF [js ''https://a.com/x'', [], js ''   '', js '' https://b.com/y '', js ''not a url'', []] \<noteq> []"
    by (simp_all add: js_def)
  have h: "inputUrls replaceExample \<noteq> []" "cleanDomain (oldDomain replaceExample) \<noteq> []"
    "cleanDomain (newDomain replaceExample) \<noteq> []"
    using c n by (simp_all add: replaceExample_def initialApp_def)
  have sp0: "split_on LF (inputUrls replaceExample) =
      [js ''https://a.com/x'', [], js ''   '', js '' https://b.com/y '', js ''not a url'', []]"
    by (simp add: replaceExample_def initialApp_def js_def)
  have ls: "?ls = [js ''https://a.com/x'', js '' https://b.com/y '', js ''not a url'']"
    unfolding sp0 by (simp add: eval_strings)
  have p: "parseURL ref_platform (trim (js ''https://a.com/x'')) =
        Some \<lparr>scheme = js ''https'', username = [], password = [], host = Some (js ''a.com''),
           port = None, path = js ''/x'', query = None, fragment = None\<rparr>"
      "parseURL ref_platform (trim (js '' https://b.com/y '')) =
        Some \<lparr>scheme = js ''https'', username = [], password = [], host = Some (js ''b.com''),
           port = None, path = js ''/y'', query = None, fragment = None\<rparr>"
      "parseURL ref_platform (trim (js ''not a url'')) = None"
    by (simp_all add: eval_url eval_strings Let_def)
  have ser: "\<forall>l \<in> set ?ls. \<forall>u.
      parseURL ref_platform (trim l) = Some u \<longrightarrow>
      LF \<notin> set (serializeURL ref_platform (setHostname ref_platform (cleanDomain (newDomain replaceExample)) u))"
    unfolding ls using p c
    by (simp add: replaceExample_def initialApp_def) (simp add: eval_url eval_strings Let_def)
  from replace_lines_classified [OF h, where P = ref_platform and t = 1700000000000 and t' = 1700000000001]
  obtain out k where
    r: "replaceUrls ref_platform (inputUrls replaceExample) (cleanDomain (oldDomain replaceExample))
          (cleanDomain (newDomain replaceExample)) = (out, k)"
    and o: "outputUrls (dispatch ref_platform (Replace 1700000000000 1700000000001) replaceExample) = join LF out"
    and ts: "toasts (dispatch ref_platform (Replace 1700000000000 1700000000001) replaceExample) =
        toasts replaceExample @ (if k > 0 then [WarningInvalidUrls k] else []) @ [SuccessReplaced]"
    and sp: "(\<forall>l \<in> set ?ls. \<forall>u.
        parseURL ref_platform (trim l) = Some u \<longrightarrow>
        LF \<notin> set (serializeURL ref_platform (setHostname ref_platform (cleanDomain (newDomain replaceExample)) u))) \<and>
        out \<noteq> [] \<longrightarrow>
       split_on LF (outputUrls (dispatch ref_platform (Replace 1700000000000 1700000000001) replaceExample)) = out"
    by blast
  from r have ok: "out = [js ''https://c.com/x'', js ''https://b.com/y'', js ''not a url'' @ invalidMarker] \<and> k = 1"
    using c replaceUrls_example by (simp add: replaceExample_def initialApp_def)
  with sp ser have "split_on LF (outputUrls (dispatch ref_platform (Replace 1700000000000 1700000000001) replaceExample)) = out"
    by blast
  with ok o ts h c sp0 ls show ?thesis
    by (simp add: replaceExample_def initialApp_def)
qed

text \<open>
  Claim C8. For a line that parses to a URL whose hostname is the old domain, the output
  is the serialization of a URL that has the scheme, user name, password, port, path,
  query and fragment of the parsed URL: either the parsed URL itself (the platform
  ignored the assignment) or the parsed URL with the host the assignment stored.
  Occurrences of the old domain in the path, the query or the fragment are therefore
  never rewritten.
\<close>

theorem replace_changes_hostname_only:
  assumes "parseURL P (trim urlStr) = Some u"
    and "toLowerCase P (hostname u) = toLowerCase P old"
  shows "\<exists>u'. replaceUrl P old new c urlStr = (serializeURL P u', c) \<and>
           scheme u' = scheme u \<and> username u' = username u \<and> password u' = password u \<and>
           port u' = port u \<and> path u' = path u \<and> query u' = query u \<and>
           fragment u' = fragment u \<and>
           (u' = u \<or> (\<exists>h. hostnameSetter P u new = Some h \<and> u' = u\<lparr>host := Some h\<rparr>))"
proof -
  have "replaceUrl P old new c urlStr = (serializeURL P (setHostname P new u), c)"
    using assms by (simp add: replaceUrl_def)
  then show ?thesis
    by (cases "hostnameSetter P u new") (auto simp: setHostname_def)
qed

theorem replace_changes_hostname_only_witness:
  "toLowerCase ref_platform (js ''a.com'') = toLowerCase ref_platform (js ''A.com'') \<and>
   replaceUrl ref_platform (js ''A.com'') (js ''c.com'') 0 portLine =
     (js ''https://c.com:8080/a.com/x?ref=a.com#a.com'', 0) \<and>
   (\<exists>u'. replaceUrl ref_platform (js ''A.com'') (js ''c.com'') 0 portLine =
           (serializeURL ref_platform u', 0) \<and>
         scheme u' = js ''https'' \<and> port u' = Some 8080 \<and> path u' = js ''/a.com/x'' \<and>
         query u' = Some (js ''ref=a.com'') \<and> fragment u' = Some (js ''a.com''))"
proof -
  let ?u = "\<lparr>scheme = js ''https'', username = [], password = [], host = Some (js ''a.com''),
           port = Some 8080, path = js ''/a.com/x'', query = Some (js ''ref=a.com''),
           fragment = Some (js ''a.com'')\<rparr>"
  have l: "toLowerCase ref_platform (hostname ?u) = toLowerCase ref_platform (js ''A.com'')"
    by (simp add: eval_url eval_strings)
  have st: "hostnameSetter ref_platform ?u (js ''c.com'') = Some (js ''c.com'')"
    by (simp add: eval_url eval_strings Let_def)
  from replace_changes_hostname_only [OF portLine_parse l, where new = "js ''c.com''" and c = 0]
  obtain u' where r: "replaceUrl ref_platform (js ''A.com'') (js ''c.com'') 0 portLine =
        (serializeURL ref_platform u', 0)"
    and f: "scheme u' = scheme ?u" "port u' = port ?u" "path u' = path ?u" "query u' = query ?u"
      "fragment u' = fragment ?u"
    by blast
  from r f have a: "\<exists>u'. replaceUrl ref_platform (js ''A.com'') (js ''c.com'') 0 portLine =
           (serializeURL ref_platform u', 0) \<and>
         scheme u' = js ''https'' \<and> port u' = Some 8080 \<and> path u' = js ''/a.com/x'' \<and>
         query u' = Some (js ''ref=a.com'') \<and> fragment u' = Some (js ''a.com'')"
    by (intro exI [of _ u']) simp
  have b: "replaceUrl ref_platform (js ''A.com'') (js ''c.com'') 0 portLine =
     (js ''https://c.com:8080/a.com/x?ref=a.com#a.com'', 0)"
    using portLine_parse l st
    by (simp add: replaceUrl_def setHostname_def)
       (simp add: ref_platform_def ref_serializeURL_def decimal.simps js_def)
  from l have c: "toLowerCase ref_platform (js ''a.com'') = toLowerCase ref_platform (js ''A.com'')"
    by (simp add: hostname_def)
  from c b a show ?thesis by (intro conjI)
qed

section \<open>Replacing a domain by itself\<close>

lemma setHostname_again:
  "hostnameSetter P (setHostname P d u) d = hostnameSetter P u d \<Longrightarrow>
   setHostname P d (setHostname P d u) = setHostname P d u"
  by (cases "hostnameSetter P u d") (auto simp: setHostname_def)

text \<open>
  Claim C7, as amended. With the old domain equal to the new domain \<open>d\<close>, a line
  that parses to a URL with another hostname is emitted as its trimmed text, and a line
  that parses to a URL with hostname \<open>d\<close> (letter case ignored) is emitted as the
  serialization of that URL after \<open>d\<close> was assigned to its hostname, which is the
  plain serialization of the parsed URL whenever the platform ignores the assignment or
  stores the host that is already there. A line that does not parse is emitted with the
  invalid-URL marker appended and counted, at every application. When every non-blank
  line parses, and the platform reads each serialization it emitted back as the same URL
  (the serialization contains no line feed, is trimmed and not empty, parses to the
  serialized URL, and the hostname setter answers for it as for the original URL), a
  second application to the joined output returns the same lines and counts no invalid
  line.
\<close>

theorem replace_same_domain:
  "(\<forall>l u. parseURL P (trim l) = Some u \<and> toLowerCase P (hostname u) \<noteq> toLowerCase P d \<longrightarrow>
      replaceUrl P d d c l = (trim l, c)) \<and>
   (\<forall>l u. parseURL P (trim l) = Some u \<and> toLowerCase P (hostname u) = toLowerCase P d \<longrightarrow>
      replaceUrl P d d c l = (serializeURL P (setHostname P d u), c) \<and>
      (hostnameSetter P u d = None \<or> hostnameSetter P u d = host u \<longrightarrow>
         replaceUrl P d d c l = (serializeURL P u, c))) \<and>
   (\<forall>l. parseURL P (trim l) = None \<longrightarrow> replaceUrl P d d c l = (trim l @ invalidMarker, c + 1)) \<and>
   ((\<forall>l \<in> set (nonBlankLines urlsText). \<exists>u. parseURL P (trim l) = Some u \<and>
        (toLowerCase P (hostname u) = toLowerCase P d \<longrightarrow>
           LF \<notin> set (serializeURL P (setHostname P d u)) \<and>
           trim (serializeURL P (setHostname P d u)) = serializeURL P (setHostname P d u) \<and>
           serializeURL P (setHostname P d u) \<noteq> [] \<and>
           parseURL P (serializeURL P (setHostname P d u)) = Some (setHostname P d u) \<and>
           hostnameSetter P (setHostname P d u) d = hostnameSetter P u d)) \<longrightarrow>
    snd (replaceUrls P urlsText d d) = 0 \<and>
    replaceUrls P (join LF (fst (replaceUrls P urlsText d d))) d d = replaceUrls P urlsText d d)"
proof (intro conjI allI impI)
  fix l u
  assume "parseURL P (trim l) = Some u \<and> toLowerCase P (hostname u) \<noteq> toLowerCase P d"
  then show "replaceUrl P d d c l = (trim l, c)"
    by (simp add: replaceUrl_def)
next
  fix l u
  assume "parseURL P (trim l) = Some u \<and> toLowerCase P (hostname u) = toLowerCase P d"
  then show "replaceUrl P d d c l = (serializeURL P (setHostname P d u), c)"
    by (simp add: replaceUrl_def)
next
  fix l u
  assume a: "parseURL P (trim l) = Some u \<and> toLowerCase P (hostname u) = toLowerCase P d"
    and b: "hostnameSetter P u d = None \<or> hostnameSetter P u d = host u"
  have "setHostname P d u = u"
  proof (cases "hostnameSetter P u d")
    case None
    then show ?thesis by (simp add: setHostname_def)
  next
    case (Some h)
    with b have "host u = Some h" by simp
    then have "u\<lparr>host := Some h\<rparr> = u\<lparr>host := host u\<rparr>" by simp
    with Some show ?thesis by (simp add: setHostname_def)
  qed
  with a show "replaceUrl P d d c l = (serializeURL P u, c)"
    by (simp add: replaceUrl_def)
next
  fix l
  assume "parseURL P (trim l) = None"
  then show "replaceUrl P d d c l = (trim l @ invalidMarker, c + 1)"
    by (simp add: replaceUrl_def)
next
  let ?ls = "nonBlankLines urlsText"
  let ?f = "\<lambda>l. fst (replaceUrl P d d 0 l)"
  assume H: "\<forall>l \<in> set ?ls. \<exists>u. parseURL P (trim l) = Some u \<and>
        (toLowerCase P (hostname u) = toLowerCase P d \<longrightarrow>
           LF \<notin> set (serializeURL P (setHostname P d u)) \<and>
           trim (serializeURL P (setHostname P d u)) = serializeURL P (setHostname P d u) \<and>
           serializeURL P (setHostname P d u) \<noteq> [] \<and>
           parseURL P (serializeURL P (setHostname P d u)) = Some (setHostname P d u) \<and>
           hostnameSetter P (setHostname P d u) d = hostnameSetter P u d)"
  have first: "replaceUrls P urlsText d d = (map ?f ?ls, 0)"
  proof -
    from H have "\<forall>l \<in> set ?ls. parseURL P (trim l) \<noteq> None" by fastforce
    then have "filter (\<lambda>l. parseURL P (trim l) = None) ?ls = []"
      by (simp add: filter_empty_conv)
    then show ?thesis by (simp add: replaceUrls_def mapUrls_eq)
  qed
  have line: "LF \<notin> set (?f l) \<and> trim (?f l) \<noteq> [] \<and> parseURL P (trim (?f l)) \<noteq> None \<and> ?f (?f l) = ?f l"
    if l: "l \<in> set ?ls" for l
  proof -
    from H l obtain u where u: "parseURL P (trim l) = Some u"
      and m: "toLowerCase P (hostname u) = toLowerCase P d \<longrightarrow>
           LF \<notin> set (serializeURL P (setHostname P d u)) \<and>
           trim (serializeURL P (setHostname P d u)) = serializeURL P (setHostname P d u) \<and>
           serializeURL P (setHostname P d u) \<noteq> [] \<and>
           parseURL P (serializeURL P (setHostname P d u)) = Some (setHostname P d u) \<and>
           hostnameSetter P (setHostname P d u) d = hostnameSetter P u d"
      by blast
    show ?thesis
    proof (cases "toLowerCase P (hostname u) = toLowerCase P d")
      case False
      with u have f: "?f l = trim l" by (simp add: replaceUrl_def)
      have "LF \<notin> set (trim l)"
        using nonBlankLines_no_LF [OF l] set_trim [of l] by blast
      with f u False nonBlankLines_trim [OF l] show ?thesis
        by (simp add: trim_idem replaceUrl_def)
    next
      case True
      let ?r = "serializeURL P (setHostname P d u)"
      from u True have f: "?f l = ?r" by (simp add: replaceUrl_def)
      from m True have r: "LF \<notin> set ?r" "trim ?r = ?r" "?r \<noteq> []"
        "parseURL P ?r = Some (setHostname P d u)"
        "hostnameSetter P (setHostname P d u) d = hostnameSetter P u d"
        by simp_all
      have "?f ?r = ?r"
        using r setHostname_again [OF r(5)] by (simp add: replaceUrl_def)
      with f r show ?thesis by simp
    qed
  qed
  have nb: "nonBlankLines (join LF (map ?f ?ls)) = map ?f ?ls"
    by (rule nonBlankLines_join) (use line in auto)
  have "filter (\<lambda>l. parseURL P (trim l) = None) (map ?f ?ls) = []"
    using line by (auto simp: filter_empty_conv)
  moreover have "map ?f (map ?f ?ls) = map ?f ?ls"
    using line by simp
  ultimately have second: "replaceUrls P (join LF (map ?f ?ls)) d d = (map ?f ?ls, 0)"
    by (simp add: replaceUrls_def mapUrls_eq nb)
  from first second
  show "snd (replaceUrls P urlsText d d) = 0"
    and "replaceUrls P (join LF (fst (replaceUrls P urlsText d d))) d d = replaceUrls P urlsText d d"
    by simp_all
qed

text \<open>
  The claim as stated fails on a line that is not a URL: each application appends the
  marker once more, so the second application changes its input.
\<close>

theorem replace_same_domain_counterexample:
  "replaceUrls ref_platform (js ''not a url'') (js ''a.com'') (js ''a.com'') =
     ([js ''not a url'' @ invalidMarker], 1) \<and>
   replaceUrls ref_platform (join LF [js ''not a url'' @ invalidMarker]) (js ''a.com'') (js ''a.com'') =
     ([js ''not a url'' @ invalidMarker @ invalidMarker], 1) \<and>
   js ''not a url'' @ invalidMarker @ invalidMarker \<noteq> js ''not a url'' @ invalidMarker"
  by (simp add: replaceUrls_def replaceUrl_def invalidMarker_def eval_url eval_strings Let_def)

theorem replace_same_domain_witness:
  "replaceUrls ref_platform sameDomainText (js ''a.com'') (js ''a.com'') =
     ([js ''https://a.com/x'', js ''https://b.com/y''], 0) \<and>
   replaceUrls ref_platform (join LF [js ''https://a.com/x'', js ''https://b.com/y''])
     (js ''a.com'') (js ''a.com'') =
     ([js ''https://a.com/x'', js ''https://b.com/y''], 0) \<and>
   replaceUrl ref_platform (js ''a.com'') (js ''a.com'') 0 (js ''HTTPS://A.com/x'') =
     (js ''https://a.com/x'', 0) \<and>
   replaceUrl ref_platform (js ''a.com'') (js ''a.com'') 0 (js '' https://b.com/y '') =
     (js ''https://b.com/y'', 0) \<and>
   replaceUrl ref_platform (js ''a.com'') (js ''a.com'') 0 (js ''not a url'') =
     (js ''not a url'' @ invalidMarker, 1)"
proof -
  let ?d = "js ''a.com''"
  let ?u1 = "\<lparr>scheme = js ''https'', username = [], password = [], host = Some (js ''a.com''),
           port = None, path = js ''/x'', query = None, fragment = None\<rparr>"
  let ?u2 = "\<lparr>scheme = js ''https'', username = [], password = [], host = Some (js ''b.com''),
           port = None, path = js ''/y'', query = None, fragment = None\<rparr>"
  have ls: "nonBlankLines sameDomainText = [js ''HTTPS://A.com/x'', js '' https://b.com/y '']"
    by (simp add: sameDomainText_def eval_strings)
  have p1: "parseURL ref_platform (trim (js ''HTTPS://A.com/x'')) = Some ?u1"
    by (simp add: eval_url eval_strings Let_def)
  have p2: "parseURL ref_platform (trim (js '' https://b.com/y '')) = Some ?u2"
    by (simp add: eval_url eval_strings Let_def)
  have p3: "parseURL ref_platform (trim (js ''not a url'')) = None"
    by (simp add: eval_url eval_strings Let_def)
  have t: "trim (js '' https://b.com/y '') = js ''https://b.com/y''" "trim (js ''not a url'') = js ''not a url''"
    by (simp_all add: eval_strings)
  have m1: "toLowerCase ref_platform (hostname ?u1) = toLowerCase ref_platform ?d"
    by (simp add: eval_url eval_strings)
  have m2: "toLowerCase ref_platform (hostname ?u2) \<noteq> toLowerCase ref_platform ?d"
    by (simp add: eval_url eval_strings)
  have hs: "hostnameSetter ref_platform ?u1 ?d = host ?u1"
    by (simp add: eval_url eval_strings Let_def)
  have s1: "setHostname ref_platform ?d ?u1 = ?u1"
    by (simp add: eval_url eval_strings Let_def)
  have r1: "serializeURL ref_platform ?u1 = js ''https://a.com/x''"
    by (simp add: eval_url eval_strings)
  have q1: "parseURL ref_platform (js ''https://a.com/x'') = Some ?u1"
    "trim (js ''https://a.com/x'') = js ''https://a.com/x''"
    "LF \<notin> set (js ''https://a.com/x'')" "js ''https://a.com/x'' \<noteq> []"
    by (simp_all add: eval_url eval_strings Let_def)
  have H: "\<forall>l \<in> set (nonBlankLines sameDomainText). \<exists>u. parseURL ref_platform (trim l) = Some u \<and>
        (toLowerCase ref_platform (hostname u) = toLowerCase ref_platform ?d \<longrightarrow>
           LF \<notin> set (serializeURL ref_platform (setHostname ref_platform ?d u)) \<and>
           trim (serializeURL ref_platform (setHostname ref_platform ?d u)) =
             serializeURL ref_platform (setHostname ref_platform ?d u) \<and>
           serializeURL ref_platform (setHostname ref_platform ?d u) \<noteq> [] \<and>
           parseURL ref_platform (serializeURL ref_platform (setHostname ref_platform ?d u)) =
             Some (setHostname ref_platform ?d u) \<and>
           hostnameSetter ref_platform (setHostname ref_platform ?d u) ?d =
             hostnameSetter ref_platform u ?d)"
    unfolding ls using p1 p2 m1 m2 s1 r1 q1 by simp
  have a: "replaceUrls ref_platform sameDomainText ?d ?d =
     ([js ''https://a.com/x'', js ''https://b.com/y''], 0)"
    using p1 p2 m1 m2 s1 r1
    by (simp add: replaceUrls_def ls replaceUrl_def) (simp add: eval_strings)
  note T = replace_same_domain [where P = ref_platform and d = ?d and urlsText = sameDomainText and c = 0]
  from T H
  have "replaceUrls ref_platform (join LF (fst (replaceUrls ref_platform sameDomainText ?d ?d))) ?d ?d =
      replaceUrls ref_platform sameDomainText ?d ?d"
    by blast
  with a have b: "replaceUrls ref_platform (join LF [js ''https://a.com/x'', js ''https://b.com/y'']) ?d ?d =
     ([js ''https://a.com/x'', js ''https://b.com/y''], 0)"
    by simp
  from T p1 m1 hs have "replaceUrl ref_platform ?d ?d 0 (js ''HTTPS://A.com/x'') = (serializeURL ref_platform ?u1, 0)"
    by blast
  with r1 have c1: "replaceUrl ref_platform ?d ?d 0 (js ''HTTPS://A.com/x'') = (js ''https://a.com/x'', 0)"
    by simp
  from T p2 m2 have "replaceUrl ref_platform ?d ?d 0 (js '' https://b.com/y '') = (trim (js '' https://b.com/y ''), 0)"
    by blast
  with t have c2: "replaceUrl ref_platform ?d ?d 0 (js '' https://b.com/y '') = (js ''https://b.com/y'', 0)"
    by simp
  from T p3 have "replaceUrl ref_platform ?d ?d 0 (js ''not a url'') = (trim (js ''not a url'') @ invalidMarker, 0 + 1)"
    by blast
  with t have c3: "replaceUrl ref_platform ?d ?d 0 (js ''not a url'') = (js ''not a url'' @ invalidMarker, 1)"
    by simp
  from a b c1 c2 c3 show ?thesis by (intro conjI)
qed

section \<open>Loading what was saved\<close>




section \<open>The extraction threshold\<close>

text \<open>
  Claim C1 does not hold of the code. The comment at line 107 and the specification
  measure the majority against the lines that parse; line 108 compares
  \<^verbatim>\<open>maxCount\<close> with \<^verbatim>\<open>urls.length / 2\<close>, and \<^verbatim>\<open>urls\<close> holds every non-blank
  line, the ones that do not parse included. In \<open>minorityText\<close> three lines parse,
  two of them with hostname \<^verbatim>\<open>a.com\<close>, a strict majority of the valid lines; the
  two further lines that are not URLs raise the threshold to 2.5 and the extractor
  returns \<^verbatim>\<open>null\<close>. Without the two invalid lines it returns \<^verbatim>\<open>a.com\<close>.
\<close>

theorem extract_counts_invalid_lines:
  "parsedHostnames ref_platform minorityText = [js ''a.com'', js ''a.com'', js ''b.com''] \<and>
   count_list (parsedHostnames ref_platform minorityText) (js ''a.com'') = 2 \<and>
   length (parsedHostnames ref_platform minorityText) = 3 \<and>
   length (nonBlankLines minorityText) = 5 \<and>
   extractCommonDomain ref_platform minorityText = None \<and>
   extractCommonDomain ref_platform majorityText = Some (js ''a.com'')"
  using extract_majority
  by (simp add: parsedHostnames_def minorityText_def List.map_filter_def eval_extract eval_url
      eval_strings Let_def)

text \<open>
  The dictionary of line 89 is a plain object, so hostnames that name properties of
  \<^verbatim>\<open>Object.prototype\<close> are not tallied: \<^verbatim>\<open>a.com\<close> is returned as the only key
  although two of three valid lines have another hostname, and a text whose only
  hostname is \<^verbatim>\<open>constructor\<close> yields no suggestion.
\<close>

lemma extract_inherited_names:
  "parsedHostnames ref_platform inheritedText = [js ''a.com'', js ''__proto__'', js ''__proto__''] \<and>
   extractCommonDomain ref_platform inheritedText = Some (js ''a.com'') \<and>
   parsedHostnames ref_platform (js ''http://constructor/'') = [js ''constructor''] \<and>
   extractCommonDomain ref_platform (js ''http://constructor/'') = None"
  by (simp add: parsedHostnames_def inheritedText_def List.map_filter_def eval_extract eval_url
      eval_strings Let_def)

end
